theory Spec2Isabelle
  imports Complex_Main "HOL-Library.Code_Target_Numeral" "HOL-Library.Multiset"
begin

section \<open>Python values used by the price tracker\<close>

text \<open>
  The development embeds \<^verbatim>\<open>website_price_tracker/app/app.py\<close> (and its older twin
  \<^verbatim>\<open>jura_s8_price_addon/app/app.py\<close>, whose \<^verbatim>\<open>try_float\<close>, \<^verbatim>\<open>normalize_euro\<close>,
  \<^verbatim>\<open>extract_price\<close> and bounds check are the same code).
\<close>

subsection \<open>Text\<close>

text \<open>
  A Python \<^verbatim>\<open>str\<close> is a list of Unicode code points. \<open>lit\<close> turns a literal of the
  program, which is ASCII, into such a text; \<open>ch\<close> is the code point of one ASCII
  character. The euro sign is U+20AC.
\<close>

type_synonym ustring = "nat list"

definition ch :: "char \<Rightarrow> nat" where
  "ch c = of_char c"

definition lit :: "string \<Rightarrow> ustring" where
  "lit s = map ch s"

definition euro :: nat where
  "euro = 8364"

text \<open>
  The tables of the Unicode character database that CPython 3.11 carries (Unicode 14.0.0):
  \<^item> \<open>decimal_zeros\<close>: the digit zero of every run of ten decimal digits (category Nd); the
    digit of value \<open>d\<close> is at offset \<open>d\<close>. These are the characters of \<^verbatim>\<open>str.isdecimal\<close>
    and of \<^verbatim>\<open>\d\<close>, and the ones \<^verbatim>\<open>float()\<close> and \<^verbatim>\<open>int()\<close> read as digits.
  \<^item> \<open>digit_ranges\<close>: the characters of \<^verbatim>\<open>str.isdigit\<close> that are not decimal
    (superscripts, circled digits and the like).
  \<^item> \<open>alnum_ranges\<close>: the characters of \<^verbatim>\<open>str.isalnum\<close> above ASCII; with the ASCII
    letters and digits and the underscore they are the word characters of \<^verbatim>\<open>\w\<close> and
    \<^verbatim>\<open>\b\<close>.
\<close>

definition decimal_zeros :: "nat list" where
  "decimal_zeros =
     [48, 1632, 1776, 1984, 2406, 2534, 2662, 2790, 2918, 3046, 3174, 3302, 3430, 3558, 3664,
      3792, 3872, 4160, 4240, 6112, 6160, 6470, 6608, 6784, 6800, 6992, 7088, 7232, 7248, 42528,
      43216, 43264, 43472, 43504, 43600, 44016, 65296, 66720, 68912, 69734, 69872, 69942, 70096,
      70384, 70736, 70864, 71248, 71360, 71472, 71904, 72016, 72784, 73040, 73120, 92768, 92864,
      93008, 120782, 120792, 120802, 120812, 120822, 123200, 123632, 125264, 130032]"

definition digit_ranges :: "(nat \<times> nat) list" where
  "digit_ranges =
     [(178, 179), (185, 185), (4969, 4977), (6618, 6618), (8304, 8304), (8308, 8313), (8320,
      8329), (9312, 9320), (9332, 9340), (9352, 9360), (9450, 9450), (9461, 9469), (9471, 9471),
      (10102, 10110), (10112, 10120), (10122, 10130), (68160, 68163), (69216, 69224), (69714,
      69722), (127232, 127242)]"

definition alnum_ranges :: "(nat \<times> nat) list" where
  "alnum_ranges =
     [(170, 170), (178, 179), (181, 181), (185, 186), (188, 190), (192, 214), (216, 246), (248,
      705), (710, 721), (736, 740), (748, 748), (750, 750), (880, 884), (886, 887), (890, 893),
      (895, 895), (902, 902), (904, 906), (908, 908), (910, 929), (931, 1013), (1015, 1153),
      (1162, 1327), (1329, 1366), (1369, 1369), (1376, 1416), (1488, 1514), (1519, 1522), (1568,
      1610), (1632, 1641), (1646, 1647), (1649, 1747), (1749, 1749), (1765, 1766), (1774, 1788),
      (1791, 1791), (1808, 1808), (1810, 1839), (1869, 1957), (1969, 1969), (1984, 2026), (2036,
      2037), (2042, 2042), (2048, 2069), (2074, 2074), (2084, 2084), (2088, 2088), (2112, 2136),
      (2144, 2154), (2160, 2183), (2185, 2190), (2208, 2249), (2308, 2361), (2365, 2365), (2384,
      2384), (2392, 2401), (2406, 2415), (2417, 2432), (2437, 2444), (2447, 2448), (2451, 2472),
      (2474, 2480), (2482, 2482), (2486, 2489), (2493, 2493), (2510, 2510), (2524, 2525), (2527,
      2529), (2534, 2545), (2548, 2553), (2556, 2556), (2565, 2570), (2575, 2576), (2579, 2600),
      (2602, 2608), (2610, 2611), (2613, 2614), (2616, 2617), (2649, 2652), (2654, 2654), (2662,
      2671), (2674, 2676), (2693, 2701), (2703, 2705), (2707, 2728), (2730, 2736), (2738, 2739),
      (2741, 2745), (2749, 2749), (2768, 2768), (2784, 2785), (2790, 2799), (2809, 2809), (2821,
      2828), (2831, 2832), (2835, 2856), (2858, 2864), (2866, 2867), (2869, 2873), (2877, 2877),
      (2908, 2909), (2911, 2913), (2918, 2927), (2929, 2935), (2947, 2947), (2949, 2954), (2958,
      2960), (2962, 2965), (2969, 2970), (2972, 2972), (2974, 2975), (2979, 2980), (2984, 2986),
      (2990, 3001), (3024, 3024), (3046, 3058), (3077, 3084), (3086, 3088), (3090, 3112), (3114,
      3129), (3133, 3133), (3160, 3162), (3165, 3165), (3168, 3169), (3174, 3183), (3192, 3198),
      (3200, 3200), (3205, 3212), (3214, 3216), (3218, 3240), (3242, 3251), (3253, 3257), (3261,
      3261), (3293, 3294), (3296, 3297), (3302, 3311), (3313, 3314), (3332, 3340), (3342, 3344),
      (3346, 3386), (3389, 3389), (3406, 3406), (3412, 3414), (3416, 3425), (3430, 3448), (3450,
      3455), (3461, 3478), (3482, 3505), (3507, 3515), (3517, 3517), (3520, 3526), (3558, 3567),
      (3585, 3632), (3634, 3635), (3648, 3654), (3664, 3673), (3713, 3714), (3716, 3716), (3718,
      3722), (3724, 3747), (3749, 3749), (3751, 3760), (3762, 3763), (3773, 3773), (3776, 3780),
      (3782, 3782), (3792, 3801), (3804, 3807), (3840, 3840), (3872, 3891), (3904, 3911), (3913,
      3948), (3976, 3980), (4096, 4138), (4159, 4169), (4176, 4181), (4186, 4189), (4193, 4193),
      (4197, 4198), (4206, 4208), (4213, 4225), (4238, 4238), (4240, 4249), (4256, 4293), (4295,
      4295), (4301, 4301), (4304, 4346), (4348, 4680), (4682, 4685), (4688, 4694), (4696, 4696),
      (4698, 4701), (4704, 4744), (4746, 4749), (4752, 4784), (4786, 4789), (4792, 4798), (4800,
      4800), (4802, 4805), (4808, 4822), (4824, 4880), (4882, 4885), (4888, 4954), (4969, 4988),
      (4992, 5007), (5024, 5109), (5112, 5117), (5121, 5740), (5743, 5759), (5761, 5786), (5792,
      5866), (5870, 5880), (5888, 5905), (5919, 5937), (5952, 5969), (5984, 5996), (5998, 6000),
      (6016, 6067), (6103, 6103), (6108, 6108), (6112, 6121), (6128, 6137), (6160, 6169), (6176,
      6264), (6272, 6276), (6279, 6312), (6314, 6314), (6320, 6389), (6400, 6430), (6470, 6509),
      (6512, 6516), (6528, 6571), (6576, 6601), (6608, 6618), (6656, 6678), (6688, 6740), (6784,
      6793), (6800, 6809), (6823, 6823), (6917, 6963), (6981, 6988), (6992, 7001), (7043, 7072),
      (7086, 7141), (7168, 7203), (7232, 7241), (7245, 7293), (7296, 7304), (7312, 7354), (7357,
      7359), (7401, 7404), (7406, 7411), (7413, 7414), (7418, 7418), (7424, 7615), (7680, 7957),
      (7960, 7965), (7968, 8005), (8008, 8013), (8016, 8023), (8025, 8025), (8027, 8027), (8029,
      8029), (8031, 8061), (8064, 8116), (8118, 8124), (8126, 8126), (8130, 8132), (8134, 8140),
      (8144, 8147), (8150, 8155), (8160, 8172), (8178, 8180), (8182, 8188), (8304, 8305), (8308,
      8313), (8319, 8329), (8336, 8348), (8450, 8450), (8455, 8455), (8458, 8467), (8469, 8469),
      (8473, 8477), (8484, 8484), (8486, 8486), (8488, 8488), (8490, 8493), (8495, 8505), (8508,
      8511), (8517, 8521), (8526, 8526), (8528, 8585), (9312, 9371), (9450, 9471), (10102,
      10131), (11264, 11492), (11499, 11502), (11506, 11507), (11517, 11517), (11520, 11557),
      (11559, 11559), (11565, 11565), (11568, 11623), (11631, 11631), (11648, 11670), (11680,
      11686), (11688, 11694), (11696, 11702), (11704, 11710), (11712, 11718), (11720, 11726),
      (11728, 11734), (11736, 11742), (11823, 11823), (12293, 12295), (12321, 12329), (12337,
      12341), (12344, 12348), (12353, 12438), (12445, 12447), (12449, 12538), (12540, 12543),
      (12549, 12591), (12593, 12686), (12690, 12693), (12704, 12735), (12784, 12799), (12832,
      12841), (12872, 12879), (12881, 12895), (12928, 12937), (12977, 12991), (13312, 19903),
      (19968, 42124), (42192, 42237), (42240, 42508), (42512, 42539), (42560, 42606), (42623,
      42653), (42656, 42735), (42775, 42783), (42786, 42888), (42891, 42954), (42960, 42961),
      (42963, 42963), (42965, 42969), (42994, 43009), (43011, 43013), (43015, 43018), (43020,
      43042), (43056, 43061), (43072, 43123), (43138, 43187), (43216, 43225), (43250, 43255),
      (43259, 43259), (43261, 43262), (43264, 43301), (43312, 43334), (43360, 43388), (43396,
      43442), (43471, 43481), (43488, 43492), (43494, 43518), (43520, 43560), (43584, 43586),
      (43588, 43595), (43600, 43609), (43616, 43638), (43642, 43642), (43646, 43695), (43697,
      43697), (43701, 43702), (43705, 43709), (43712, 43712), (43714, 43714), (43739, 43741),
      (43744, 43754), (43762, 43764), (43777, 43782), (43785, 43790), (43793, 43798), (43808,
      43814), (43816, 43822), (43824, 43866), (43868, 43881), (43888, 44002), (44016, 44025),
      (44032, 55203), (55216, 55238), (55243, 55291), (63744, 64109), (64112, 64217), (64256,
      64262), (64275, 64279), (64285, 64285), (64287, 64296), (64298, 64310), (64312, 64316),
      (64318, 64318), (64320, 64321), (64323, 64324), (64326, 64433), (64467, 64829), (64848,
      64911), (64914, 64967), (65008, 65019), (65136, 65140), (65142, 65276), (65296, 65305),
      (65313, 65338), (65345, 65370), (65382, 65470), (65474, 65479), (65482, 65487), (65490,
      65495), (65498, 65500), (65536, 65547), (65549, 65574), (65576, 65594), (65596, 65597),
      (65599, 65613), (65616, 65629), (65664, 65786), (65799, 65843), (65856, 65912), (65930,
      65931), (66176, 66204), (66208, 66256), (66273, 66299), (66304, 66339), (66349, 66378),
      (66384, 66421), (66432, 66461), (66464, 66499), (66504, 66511), (66513, 66517), (66560,
      66717), (66720, 66729), (66736, 66771), (66776, 66811), (66816, 66855), (66864, 66915),
      (66928, 66938), (66940, 66954), (66956, 66962), (66964, 66965), (66967, 66977), (66979,
      66993), (66995, 67001), (67003, 67004), (67072, 67382), (67392, 67413), (67424, 67431),
      (67456, 67461), (67463, 67504), (67506, 67514), (67584, 67589), (67592, 67592), (67594,
      67637), (67639, 67640), (67644, 67644), (67647, 67669), (67672, 67702), (67705, 67742),
      (67751, 67759), (67808, 67826), (67828, 67829), (67835, 67867), (67872, 67897), (67968,
      68023), (68028, 68047), (68050, 68096), (68112, 68115), (68117, 68119), (68121, 68149),
      (68160, 68168), (68192, 68222), (68224, 68255), (68288, 68295), (68297, 68324), (68331,
      68335), (68352, 68405), (68416, 68437), (68440, 68466), (68472, 68497), (68521, 68527),
      (68608, 68680), (68736, 68786), (68800, 68850), (68858, 68899), (68912, 68921), (69216,
      69246), (69248, 69289), (69296, 69297), (69376, 69415), (69424, 69445), (69457, 69460),
      (69488, 69505), (69552, 69579), (69600, 69622), (69635, 69687), (69714, 69743), (69745,
      69746), (69749, 69749), (69763, 69807), (69840, 69864), (69872, 69881), (69891, 69926),
      (69942, 69951), (69956, 69956), (69959, 69959), (69968, 70002), (70006, 70006), (70019,
      70066), (70081, 70084), (70096, 70106), (70108, 70108), (70113, 70132), (70144, 70161),
      (70163, 70187), (70272, 70278), (70280, 70280), (70282, 70285), (70287, 70301), (70303,
      70312), (70320, 70366), (70384, 70393), (70405, 70412), (70415, 70416), (70419, 70440),
      (70442, 70448), (70450, 70451), (70453, 70457), (70461, 70461), (70480, 70480), (70493,
      70497), (70656, 70708), (70727, 70730), (70736, 70745), (70751, 70753), (70784, 70831),
      (70852, 70853), (70855, 70855), (70864, 70873), (71040, 71086), (71128, 71131), (71168,
      71215), (71236, 71236), (71248, 71257), (71296, 71338), (71352, 71352), (71360, 71369),
      (71424, 71450), (71472, 71483), (71488, 71494), (71680, 71723), (71840, 71922), (71935,
      71942), (71945, 71945), (71948, 71955), (71957, 71958), (71960, 71983), (71999, 71999),
      (72001, 72001), (72016, 72025), (72096, 72103), (72106, 72144), (72161, 72161), (72163,
      72163), (72192, 72192), (72203, 72242), (72250, 72250), (72272, 72272), (72284, 72329),
      (72349, 72349), (72368, 72440), (72704, 72712), (72714, 72750), (72768, 72768), (72784,
      72812), (72818, 72847), (72960, 72966), (72968, 72969), (72971, 73008), (73030, 73030),
      (73040, 73049), (73056, 73061), (73063, 73064), (73066, 73097), (73112, 73112), (73120,
      73129), (73440, 73458), (73648, 73648), (73664, 73684), (73728, 74649), (74752, 74862),
      (74880, 75075), (77712, 77808), (77824, 78894), (82944, 83526), (92160, 92728), (92736,
      92766), (92768, 92777), (92784, 92862), (92864, 92873), (92880, 92909), (92928, 92975),
      (92992, 92995), (93008, 93017), (93019, 93025), (93027, 93047), (93053, 93071), (93760,
      93846), (93952, 94026), (94032, 94032), (94099, 94111), (94176, 94177), (94179, 94179),
      (94208, 100343), (100352, 101589), (101632, 101640), (110576, 110579), (110581, 110587),
      (110589, 110590), (110592, 110882), (110928, 110930), (110948, 110951), (110960, 111355),
      (113664, 113770), (113776, 113788), (113792, 113800), (113808, 113817), (119520, 119539),
      (119648, 119672), (119808, 119892), (119894, 119964), (119966, 119967), (119970, 119970),
      (119973, 119974), (119977, 119980), (119982, 119993), (119995, 119995), (119997, 120003),
      (120005, 120069), (120071, 120074), (120077, 120084), (120086, 120092), (120094, 120121),
      (120123, 120126), (120128, 120132), (120134, 120134), (120138, 120144), (120146, 120485),
      (120488, 120512), (120514, 120538), (120540, 120570), (120572, 120596), (120598, 120628),
      (120630, 120654), (120656, 120686), (120688, 120712), (120714, 120744), (120746, 120770),
      (120772, 120779), (120782, 120831), (122624, 122654), (123136, 123180), (123191, 123197),
      (123200, 123209), (123214, 123214), (123536, 123565), (123584, 123627), (123632, 123641),
      (124896, 124902), (124904, 124907), (124909, 124910), (124912, 124926), (124928, 125124),
      (125127, 125135), (125184, 125251), (125259, 125259), (125264, 125273), (126065, 126123),
      (126125, 126127), (126129, 126132), (126209, 126253), (126255, 126269), (126464, 126467),
      (126469, 126495), (126497, 126498), (126500, 126500), (126503, 126503), (126505, 126514),
      (126516, 126519), (126521, 126521), (126523, 126523), (126530, 126530), (126535, 126535),
      (126537, 126537), (126539, 126539), (126541, 126543), (126545, 126546), (126548, 126548),
      (126551, 126551), (126553, 126553), (126555, 126555), (126557, 126557), (126559, 126559),
      (126561, 126562), (126564, 126564), (126567, 126570), (126572, 126578), (126580, 126583),
      (126585, 126588), (126590, 126590), (126592, 126601), (126603, 126619), (126625, 126627),
      (126629, 126633), (126635, 126651), (127232, 127244), (130032, 130041), (131072, 173791),
      (173824, 177976), (177984, 178205), (178208, 183969), (183984, 191456), (194560, 195101),
      (196608, 201546)]"


definition in_ranges :: "nat \<Rightarrow> (nat \<times> nat) list \<Rightarrow> bool" where
  "in_ranges c rs = list_ex (\<lambda>(lo, hi). lo \<le> c \<and> c \<le> hi) rs"

text \<open>\<^verbatim>\<open>unicodedata.decimal\<close>: the value of a decimal digit.\<close>

definition decimal_value :: "nat \<Rightarrow> nat option" where
  "decimal_value c =
     (case find (\<lambda>z. z \<le> c \<and> c < z + 10) decimal_zeros of
        None \<Rightarrow> None
      | Some z \<Rightarrow> Some (c - z))"

definition is_decimal :: "nat \<Rightarrow> bool" where
  "is_decimal c \<longleftrightarrow> decimal_value c \<noteq> None"

definition is_ascii_digit :: "nat \<Rightarrow> bool" where
  "is_ascii_digit c \<longleftrightarrow> 48 \<le> c \<and> c \<le> 57"

text \<open>\<^verbatim>\<open>str.isdigit\<close> on one character.\<close>

definition is_digit :: "nat \<Rightarrow> bool" where
  "is_digit c \<longleftrightarrow> is_decimal c \<or> in_ranges c digit_ranges"

text \<open>
  Python's whitespace, the characters \<^verbatim>\<open>str.strip()\<close> removes and \<^verbatim>\<open>\s\<close> matches
  (\<^verbatim>\<open>str.isspace\<close>).
\<close>

definition is_space :: "nat \<Rightarrow> bool" where
  "is_space c \<longleftrightarrow>
     (9 \<le> c \<and> c \<le> 13) \<or> (28 \<le> c \<and> c \<le> 32) \<or> c = 133 \<or> c = 160 \<or> c = 5760
     \<or> (8192 \<le> c \<and> c \<le> 8202) \<or> c = 8232 \<or> c = 8233 \<or> c = 8239 \<or> c = 8287
     \<or> c = 12288"

text \<open>
  The whitespace of C's \<^verbatim>\<open>isspace\<close> in the C locale, which is what \<^verbatim>\<open>float()\<close> skips
  around a number: 0x1C-0x1F are not in it.
\<close>

definition is_c_space :: "nat \<Rightarrow> bool" where
  "is_c_space c \<longleftrightarrow> (9 \<le> c \<and> c \<le> 13) \<or> c = 32"

text \<open>The word characters of \<^verbatim>\<open>\b\<close> and \<^verbatim>\<open>\w\<close>.\<close>

definition is_word :: "nat \<Rightarrow> bool" where
  "is_word c \<longleftrightarrow>
     (if c < 128
      then (48 \<le> c \<and> c \<le> 57) \<or> (65 \<le> c \<and> c \<le> 90) \<or> c = 95 \<or> (97 \<le> c \<and> c \<le> 122)
      else in_ranges c alnum_ranges)"

text \<open>Lower case within ASCII, for the words \<^verbatim>\<open>inf\<close> and \<^verbatim>\<open>nan\<close> of \<^verbatim>\<open>float()\<close>.\<close>

definition ascii_lower :: "nat \<Rightarrow> nat" where
  "ascii_lower c = (if 65 \<le> c \<and> c \<le> 90 then c + 32 else c)"

subsection \<open>Floats\<close>

text \<open>
  A Python float is an IEEE 754 double: a finite number, an infinity or NaN. A finite
  double is kept as the rational it denotes (the two zeros are one value; no comparison,
  truth test or division of the program tells them apart). \<open>mk_float r\<close> is the double
  nearest to the rational \<open>r\<close>, ties going to the even significand: numbers below half
  the least subnormal round to zero, numbers from \<open>2^1024 - 2^970\<close> on round to an infinity.
  Both \<^verbatim>\<open>float()\<close> on a string and the division \<^verbatim>\<open>/\<close> round the exact result this way.
  Comparisons with NaN are false.
\<close>

datatype pyfloat = Fin rat | PInf | NInf | NaN

text \<open>\<open>log2_floor n\<close> is the position of the leading bit of \<open>n\<close>.\<close>

fun log2_floor :: "nat \<Rightarrow> nat" where
  "log2_floor n = (if n < 2 then 0 else Suc (log2_floor (n div 2)))"

declare log2_floor.simps [simp del]

definition log2_ceil :: "nat \<Rightarrow> nat" where
  "log2_ceil n = (if n \<le> 1 then 0 else Suc (log2_floor (n - 1)))"

definition pow2 :: "int \<Rightarrow> rat" where
  "pow2 k = (if 0 \<le> k then 2 ^ nat k else 1 / 2 ^ nat (- k))"

text \<open>For \<open>a > 0\<close>, the \<open>e\<close> with \<open>2^e \<le> a < 2^(e+1)\<close>.\<close>

definition binary_exponent :: "rat \<Rightarrow> int" where
  "binary_exponent a =
     (if 1 \<le> a then int (log2_floor (nat \<lfloor>a\<rfloor>))
      else - int (log2_ceil (nat \<lceil>1 / a\<rceil>)))"

definition round_half_even :: "rat \<Rightarrow> int" where
  "round_half_even x =
     (let f = \<lfloor>x\<rfloor>; d = x - of_int f
      in if d < 1 / 2 then f
         else if 1 / 2 < d then f + 1
         else if even f then f else f + 1)"

text \<open>
  The significand has 53 bits, so a number of binary exponent \<open>e\<close> is rounded to a
  multiple of \<open>2^(e-52)\<close>; below \<open>2^-1022\<close> the spacing of the doubles stays \<open>2^-1074\<close>.
\<close>

definition round_to_quantum :: "int \<Rightarrow> rat \<Rightarrow> rat" where
  "round_to_quantum k a = of_int (round_half_even (a / pow2 k)) * pow2 k"

definition round_double :: "rat \<Rightarrow> rat" where
  "round_double a = round_to_quantum (max (binary_exponent a) (- 1022) - 52) a"

definition finite_or_inf :: "bool \<Rightarrow> rat \<Rightarrow> pyfloat" where
  "finite_or_inf neg v =
     (if 2 ^ 1024 \<le> v then (if neg then NInf else PInf)
      else Fin (if neg then - v else v))"

definition mk_float :: "rat \<Rightarrow> pyfloat" where
  "mk_float r = (if r = 0 then Fin 0 else finite_or_inf (r < 0) (round_double \<bar>r\<bar>))"

fun fle :: "pyfloat \<Rightarrow> pyfloat \<Rightarrow> bool" where
  "fle NaN _ = False"
| "fle _ NaN = False"
| "fle NInf _ = True"
| "fle _ PInf = True"
| "fle PInf _ = False"
| "fle _ NInf = False"
| "fle (Fin x) (Fin y) = (x \<le> y)"

fun flt :: "pyfloat \<Rightarrow> pyfloat \<Rightarrow> bool" where
  "flt NaN _ = False"
| "flt _ NaN = False"
| "flt PInf _ = False"
| "flt _ NInf = False"
| "flt NInf _ = True"
| "flt _ PInf = True"
| "flt (Fin x) (Fin y) = (x < y)"

text \<open>
  \<open>fdiv x y\<close> is \<^verbatim>\<open>x / y\<close> for a divisor that is not zero. The program divides by the
  literals \<^verbatim>\<open>100.0\<close> and \<^verbatim>\<open>10.0\<close> and by a divisor it has tested to be \<^verbatim>\<open>> 0\<close>,
  so Python's \<^verbatim>\<open>ZeroDivisionError\<close> cannot arise at any call.
\<close>

fun fdiv :: "pyfloat \<Rightarrow> pyfloat \<Rightarrow> pyfloat" where
  "fdiv NaN _ = NaN"
| "fdiv _ NaN = NaN"
| "fdiv (Fin x) (Fin y) = mk_float (x / y)"
| "fdiv (Fin x) PInf = Fin 0"
| "fdiv (Fin x) NInf = Fin 0"
| "fdiv PInf (Fin y) = (if 0 < y then PInf else NInf)"
| "fdiv NInf (Fin y) = (if 0 < y then NInf else PInf)"
| "fdiv PInf PInf = NaN"
| "fdiv PInf NInf = NaN"
| "fdiv NInf PInf = NaN"
| "fdiv NInf NInf = NaN"

text \<open>Truthiness of a float: only zero is false (NaN is true).\<close>

definition float_truthy :: "pyfloat \<Rightarrow> bool" where
  "float_truthy x \<longleftrightarrow> x \<noteq> Fin 0"

subsection \<open>String methods\<close>

definition py_strip :: "ustring \<Rightarrow> ustring" where
  "py_strip s = rev (dropWhile is_space (rev (dropWhile is_space s)))"

text \<open>\<^verbatim>\<open>s.replace(c, "")\<close> and \<^verbatim>\<open>s.replace(c, d)\<close> for one-character patterns.\<close>

definition remove_char :: "nat \<Rightarrow> ustring \<Rightarrow> ustring" where
  "remove_char c s = filter (\<lambda>x. x \<noteq> c) s"

definition replace_char :: "nat \<Rightarrow> nat \<Rightarrow> ustring \<Rightarrow> ustring" where
  "replace_char c d s = map (\<lambda>x. if x = c then d else x) s"

text \<open>\<^verbatim>\<open>s.find(c)\<close>: the index of the first occurrence, \<open>-1\<close> when there is none.\<close>

fun py_find :: "nat \<Rightarrow> ustring \<Rightarrow> int" where
  "py_find c [] = -1"
| "py_find c (x # xs) =
     (if x = c then 0 else (let r = py_find c xs in if r < 0 then -1 else r + 1))"

text \<open>\<^verbatim>\<open>str(i)\<close> for an integer, as the program text it is appended to.\<close>

definition digit_char :: "nat \<Rightarrow> char" where
  "digit_char d = ''0123456789'' ! d"

fun nat_str :: "nat \<Rightarrow> string" where
  "nat_str n = (if n < 10 then [digit_char n] else nat_str (n div 10) @ [digit_char (n mod 10)])"

declare nat_str.simps [simp del]

definition int_str :: "int \<Rightarrow> string" where
  "int_str i = (if i < 0 then CHR ''-'' # nat_str (nat (- i)) else nat_str (nat i))"

subsection \<open>The format \<^verbatim>\<open>{x:g}\<close>\<close>

text \<open>
  Six significant digits of the exact value, rounded half to even; exponent notation
  when the decimal exponent is below \<open>-4\<close> or at least 6; trailing zeros and a trailing
  point removed; the exponent with at least two digits.
\<close>

fun log10_floor :: "nat \<Rightarrow> nat" where
  "log10_floor n = (if n < 10 then 0 else Suc (log10_floor (n div 10)))"

declare log10_floor.simps [simp del]

definition log10_ceil :: "nat \<Rightarrow> nat" where
  "log10_ceil n = (if n \<le> 1 then 0 else Suc (log10_floor (n - 1)))"

definition pow10 :: "int \<Rightarrow> rat" where
  "pow10 e = (if 0 \<le> e then 10 ^ nat e else 1 / 10 ^ nat (- e))"

text \<open>For \<open>a > 0\<close>, the \<open>x\<close> with \<open>10^x \<le> a < 10^(x+1)\<close>.\<close>

definition decimal_exponent :: "rat \<Rightarrow> int" where
  "decimal_exponent a =
     (if 1 \<le> a then int (log10_floor (nat \<lfloor>a\<rfloor>))
      else - int (log10_ceil (nat \<lceil>1 / a\<rceil>)))"

definition strip_zeros :: "string \<Rightarrow> string" where
  "strip_zeros s = rev (dropWhile (\<lambda>c. c = CHR ''0'') (rev s))"

definition exp_str :: "int \<Rightarrow> string" where
  "exp_str x =
     (if x < 0 then ''-'' else ''+'')
     @ (let d = nat_str (nat \<bar>x\<bar>) in if length d < 2 then CHR ''0'' # d else d)"

text \<open>The six digits \<open>ds\<close> of a number of decimal exponent \<open>x\<close>, laid out.\<close>

definition fmt_g_digits :: "int \<Rightarrow> string \<Rightarrow> string" where
  "fmt_g_digits x ds =
     (if x < - 4 \<or> 6 \<le> x then
        hd ds # (if strip_zeros (tl ds) = [] then [] else CHR ''.'' # strip_zeros (tl ds))
        @ ''e'' @ exp_str x
      else if 0 \<le> x then
        take (nat x + 1) ds
        @ (if strip_zeros (drop (nat x + 1) ds) = [] then []
           else CHR ''.'' # strip_zeros (drop (nat x + 1) ds))
      else ''0.'' @ replicate (nat (- x - 1)) (CHR ''0'') @ strip_zeros ds)"

text \<open>Rounding to six digits can carry into a seventh.\<close>

definition fmt_g_rounded :: "int \<Rightarrow> nat \<Rightarrow> string" where
  "fmt_g_rounded x n =
     (if n = 1000000 then fmt_g_digits (x + 1) (nat_str 100000) else fmt_g_digits x (nat_str n))"

definition fmt_g_at :: "int \<Rightarrow> rat \<Rightarrow> string" where
  "fmt_g_at x a = fmt_g_rounded x (nat (round_half_even (a / pow10 (x - 5))))"

definition fmt_g_pos :: "rat \<Rightarrow> string" where
  "fmt_g_pos a = fmt_g_at (decimal_exponent a) a"

definition fmt_g :: "pyfloat \<Rightarrow> string" where
  "fmt_g x =
     (case x of
        NaN \<Rightarrow> ''nan''
      | PInf \<Rightarrow> ''inf''
      | NInf \<Rightarrow> ''-inf''
      | Fin r \<Rightarrow>
          if r = 0 then ''0''
          else (if r < 0 then ''-'' else []) @ fmt_g_pos \<bar>r\<bar>)"

subsection \<open>The \<^verbatim>\<open>float()\<close> constructor on strings\<close>

text \<open>
  \<^verbatim>\<open>float(s)\<close> first turns the text into ASCII: a character below 128 is kept, a
  Unicode space becomes a blank, a decimal digit becomes the ASCII digit of its value, and
  any other character makes the conversion fail. It then skips the whitespace of C's
  \<^verbatim>\<open>isspace\<close> at both ends and reads the grammar of the Python documentation:
  \<^verbatim>\<open>
  digitpart   ::= digit (["_"] digit)*
  number      ::= [digitpart] "." digitpart | digitpart ["."]
  exponent    ::= ("e" | "E") [sign] digitpart
  floatvalue  ::= [sign] (number [exponent] | "inf" | "infinity" | "nan")
  \<close>
  with the words in any case. The number read is rounded to the nearest double. \<open>None\<close>
  stands for the \<^verbatim>\<open>ValueError\<close> that both callers catch.
\<close>

definition to_ascii :: "ustring \<Rightarrow> ustring option" where
  "to_ascii s =
     those (map (\<lambda>c. if c < 128 then Some c
                     else if is_space c then Some 32
                     else map_option (\<lambda>d. 48 + d) (decimal_value c)) s)"

definition c_strip :: "ustring \<Rightarrow> ustring" where
  "c_strip s = rev (dropWhile is_c_space (rev (dropWhile is_c_space s)))"

fun digitpart_tail :: "ustring \<Rightarrow> bool" where
  "digitpart_tail [] = True"
| "digitpart_tail (c # cs) =
     (if is_ascii_digit c then digitpart_tail cs
      else if c = ch CHR ''_'' then
        (case cs of [] \<Rightarrow> False | d # ds \<Rightarrow> is_ascii_digit d \<and> digitpart_tail ds)
      else False)"

definition digitpart :: "ustring \<Rightarrow> bool" where
  "digitpart s = (case s of [] \<Rightarrow> False | c # cs \<Rightarrow> is_ascii_digit c \<and> digitpart_tail cs)"

definition digit_val :: "nat \<Rightarrow> nat" where
  "digit_val c = c - 48"

definition digits_val :: "ustring \<Rightarrow> nat" where
  "digits_val s = foldl (\<lambda>a c. 10 * a + digit_val c) 0 (filter is_ascii_digit s)"

definition split_sign :: "ustring \<Rightarrow> bool \<times> ustring" where
  "split_sign s =
     (case s of
        c # cs \<Rightarrow> if c = ch CHR ''-'' then (True, cs)
                  else if c = ch CHR ''+'' then (False, cs)
                  else (False, s)
      | [] \<Rightarrow> (False, s))"

definition parse_mantissa :: "ustring \<Rightarrow> rat option" where
  "parse_mantissa m =
     (let ip = takeWhile (\<lambda>c. c \<noteq> ch CHR ''.'') m;
          rest = dropWhile (\<lambda>c. c \<noteq> ch CHR ''.'') m
      in if rest = [] then
           (if digitpart ip then Some (of_nat (digits_val ip)) else None)
         else
           (let fp = tl rest in
            if (ip = [] \<or> digitpart ip) \<and> (fp = [] \<or> digitpart fp) \<and> \<not> (ip = [] \<and> fp = [])
            then Some (of_nat (digits_val ip)
                       + of_nat (digits_val fp) / 10 ^ length (filter is_ascii_digit fp))
            else None))"

definition parse_exponent :: "ustring \<Rightarrow> int option" where
  "parse_exponent e =
     (let (neg, ds) = split_sign e
      in if digitpart ds
         then Some (if neg then - int (digits_val ds) else int (digits_val ds))
         else None)"

definition parse_number :: "ustring \<Rightarrow> rat option" where
  "parse_number s =
     (let m = takeWhile (\<lambda>c. c \<noteq> ch CHR ''e'' \<and> c \<noteq> ch CHR ''E'') s;
          rest = dropWhile (\<lambda>c. c \<noteq> ch CHR ''e'' \<and> c \<noteq> ch CHR ''E'') s
      in case parse_mantissa m of
           None \<Rightarrow> None
         | Some v \<Rightarrow>
             (if rest = [] then Some v
              else case parse_exponent (tl rest) of
                     None \<Rightarrow> None
                   | Some e \<Rightarrow> Some (v * pow10 e)))"

definition ascii_float :: "ustring \<Rightarrow> pyfloat option" where
  "ascii_float s =
     (let (neg, body) = split_sign (c_strip s);
          word = map ascii_lower body
      in if word = lit ''inf'' \<or> word = lit ''infinity'' then Some (if neg then NInf else PInf)
         else if word = lit ''nan'' then Some NaN
         else case parse_number body of
                None \<Rightarrow> None
              | Some v \<Rightarrow> Some (mk_float (if neg then - v else v)))"

definition py_float :: "ustring \<Rightarrow> pyfloat option" where
  "py_float s = (case to_ascii s of None \<Rightarrow> None | Some a \<Rightarrow> ascii_float a)"

section \<open>The number normalizer\<close>

text \<open>
  \<^verbatim>\<open>normalize_euro(num)\<close> (app.py, lines 563-575): strip, drop blanks, rewrite
  the separators, then \<^verbatim>\<open>float()\<close>; any exception becomes \<^verbatim>\<open>None\<close>.
\<close>

definition fix_separators :: "ustring \<Rightarrow> ustring" where
  "fix_separators candidate =
     (if ch CHR '','' \<in> set candidate \<and> ch CHR ''.'' \<in> set candidate then
        (if py_find (ch CHR ''.'') candidate < py_find (ch CHR '','') candidate
         then replace_char (ch CHR '','') (ch CHR ''.'') (remove_char (ch CHR ''.'') candidate)
         else remove_char (ch CHR '','') candidate)
      else replace_char (ch CHR '','') (ch CHR ''.'') (remove_char (ch CHR ''.'') candidate))"

definition normalize_euro :: "ustring \<Rightarrow> pyfloat option" where
  "normalize_euro num =
     py_float (fix_separators (remove_char (ch CHR '' '') (py_strip num)))"

section \<open>JSON values and \<^verbatim>\<open>try_float\<close>\<close>

text \<open>
  What \<^verbatim>\<open>json.loads\<close> returns. An object is an association list read with \<open>map_of\<close>.
  The program looks at a non-integer number only through \<^verbatim>\<open>str()\<close>, its truth value
  and \<^verbatim>\<open>isinstance\<close>, so \<open>JFloat\<close> carries the text \<^verbatim>\<open>str()\<close> gives for it
  (\<^verbatim>\<open>"129.99"\<close>, \<^verbatim>\<open>"1e+16"\<close>, \<^verbatim>\<open>"nan"\<close>).
\<close>

datatype json =
  JNull
| JBool bool
| JInt int
| JFloat ustring
| JStr ustring
| JArr "json list"
| JObj "(ustring \<times> json) list"

text \<open>Truth value of a JSON value, for \<^verbatim>\<open>a or b\<close> and \<^verbatim>\<open>if x:\<close>.\<close>

definition json_truthy :: "json \<Rightarrow> bool" where
  "json_truthy v =
     (case v of
        JNull \<Rightarrow> False
      | JBool b \<Rightarrow> b
      | JInt i \<Rightarrow> i \<noteq> 0
      | JFloat t \<Rightarrow> t \<noteq> lit ''0.0'' \<and> t \<noteq> lit ''-0.0''
      | JStr s \<Rightarrow> s \<noteq> []
      | JArr xs \<Rightarrow> xs \<noteq> []
      | JObj kvs \<Rightarrow> kvs \<noteq> [])"

definition py_or :: "json \<Rightarrow> json \<Rightarrow> json" where
  "py_or a b = (if json_truthy a then a else b)"

text \<open>\<^verbatim>\<open>d.get(k)\<close>: \<^verbatim>\<open>None\<close> for a missing key.\<close>

definition dict_get :: "(ustring \<times> json) list \<Rightarrow> ustring \<Rightarrow> json" where
  "dict_get d k = (case map_of d k of None \<Rightarrow> JNull | Some v \<Rightarrow> v)"

text \<open>
  \<^verbatim>\<open>try_float(value)\<close> (app.py, lines 491-505). \<^verbatim>\<open>str()\<close> of a list or a dict starts
  with a bracket that no replacement removes, so \<^verbatim>\<open>float()\<close> raises and the result is
  \<^verbatim>\<open>None\<close>; \<^verbatim>\<open>str(True)\<close> is \<^verbatim>\<open>"True"\<close>. The text of a number keeps its point,
  which the function then removes like a grouping separator.
\<close>

definition try_float_str :: "ustring \<Rightarrow> pyfloat option" where
  "try_float_str candidate =
     py_float (fix_separators (remove_char (ch CHR '' '') (py_strip candidate)))"

definition try_float :: "json \<Rightarrow> pyfloat option" where
  "try_float v =
     (case v of
        JNull \<Rightarrow> None
      | JBool b \<Rightarrow> try_float_str (lit (if b then ''True'' else ''False''))
      | JInt i \<Rightarrow> try_float_str (lit (int_str i))
      | JFloat t \<Rightarrow> try_float_str t
      | JStr s \<Rightarrow> try_float_str s
      | JArr xs \<Rightarrow> None
      | JObj kvs \<Rightarrow> None)"

section \<open>The price pattern\<close>

text \<open>
  \<^verbatim>\<open>PRICE_RE = (?<!\d)(?:EURO\s*|\bEUR\s*)(\d{1,4}(?:[.,]\d{3})*(?:[.,]\d{2})?)\<close>, ignoring
  case, where EURO is the euro sign. The pattern is a \<^verbatim>\<open>str\<close> pattern, so \<^verbatim>\<open>\d\<close> is any
  decimal digit, \<^verbatim>\<open>\s\<close> any Unicode space and \<^verbatim>\<open>\b\<close> a boundary of Unicode word
  characters; under \<^verbatim>\<open>IGNORECASE\<close> the letters of \<^verbatim>\<open>EUR\<close> match themselves in either
  case and nothing else. Nothing follows the group and every part after its first digit is
  optional, so the greedy choice at each step is the match Python's backtracking matcher
  returns. A match is the pair of group 1 and the text after it.
\<close>

definition is_sep :: "nat \<Rightarrow> bool" where
  "is_sep c \<longleftrightarrow> c = ch CHR ''.'' \<or> c = ch CHR '',''"

text \<open>\<^verbatim>\<open>(?:[.,]\d{3})*\<close>\<close>

fun thousands :: "ustring \<Rightarrow> ustring \<times> ustring" where
  "thousands (c # d1 # d2 # d3 # rest) =
     (if is_sep c \<and> is_decimal d1 \<and> is_decimal d2 \<and> is_decimal d3
      then (let (g, r) = thousands rest in (c # d1 # d2 # d3 # g, r))
      else ([], c # d1 # d2 # d3 # rest))"
| "thousands s = ([], s)"

text \<open>\<^verbatim>\<open>(?:[.,]\d{2})?\<close>\<close>

fun cents :: "ustring \<Rightarrow> ustring \<times> ustring" where
  "cents (c # d1 # d2 # rest) =
     (if is_sep c \<and> is_decimal d1 \<and> is_decimal d2
      then ([c, d1, d2], rest)
      else ([], c # d1 # d2 # rest))"
| "cents s = ([], s)"

text \<open>Group 1: \<^verbatim>\<open>\d{1,4}\<close>, then the groups of three, then the optional two.\<close>

definition price_number :: "ustring \<Rightarrow> (ustring \<times> ustring) option" where
  "price_number s =
     (let d = takeWhile is_decimal (take 4 s)
      in if d = [] then None
         else (let (g, r1) = thousands (drop (length d) s);
                   (c, r2) = cents r1
               in Some (d @ g @ c, r2)))"

text \<open>The shape of group 1: decimal digits and separators, a digit first.\<close>

definition is_price_text :: "ustring \<Rightarrow> bool" where
  "is_price_text g \<longleftrightarrow>
     g \<noteq> [] \<and> is_decimal (hd g) \<and> (\<forall>c \<in> set g. is_decimal c \<or> is_sep c)"

text \<open>
  \<^verbatim>\<open>(?:EURO\s*|\bEUR\s*)\<close> at the head of \<open>s\<close>, \<open>prev\<close> being the character before it:
  \<^verbatim>\<open>\b\<close> in front of the letter needs a non-word character or the start of the text.
\<close>

definition price_prefix :: "nat option \<Rightarrow> ustring \<Rightarrow> ustring option" where
  "price_prefix prev s =
     (case s of
        [] \<Rightarrow> None
      | c # cs \<Rightarrow>
          if c = euro then Some (dropWhile is_space cs)
          else (case s of
                  e # u # r # rest \<Rightarrow>
                    if (e = ch CHR ''E'' \<or> e = ch CHR ''e'') \<and> (u = ch CHR ''U'' \<or> u = ch CHR ''u'')
                       \<and> (r = ch CHR ''R'' \<or> r = ch CHR ''r'')
                       \<and> (case prev of None \<Rightarrow> True | Some p \<Rightarrow> \<not> is_word p)
                    then Some (dropWhile is_space rest)
                    else None
                | _ \<Rightarrow> None))"

text \<open>The whole pattern at one position; \<^verbatim>\<open>(?<!\d)\<close> looks at \<open>prev\<close>.\<close>

definition price_re_at :: "nat option \<Rightarrow> ustring \<Rightarrow> (ustring \<times> ustring) option" where
  "price_re_at prev s =
     (if (case prev of None \<Rightarrow> False | Some p \<Rightarrow> is_decimal p) then None
      else case price_prefix prev s of
             None \<Rightarrow> None
           | Some t \<Rightarrow> price_number t)"

text \<open>\<^verbatim>\<open>PRICE_RE.search\<close>: the leftmost match.\<close>

fun price_re_search :: "nat option \<Rightarrow> ustring \<Rightarrow> (ustring \<times> ustring) option" where
  "price_re_search prev [] = None"
| "price_re_search prev (c # cs) =
     (case price_re_at prev (c # cs) of
        Some m \<Rightarrow> Some m
      | None \<Rightarrow> price_re_search (Some c) cs)"

lemma thousands_length: "length (snd (thousands s)) \<le> length s"
  by (induction s rule: thousands.induct) (auto split: prod.splits)

lemma cents_length: "length (snd (cents s)) \<le> length s"
  by (induction s rule: cents.induct) auto

lemma price_number_length:
  assumes "price_number s = Some (g, rest)"
  shows "length rest < length s"
proof -
  define d where "d = takeWhile is_decimal (take 4 s)"
  from assms have ne: "d \<noteq> []"
    by (auto simp: price_number_def d_def Let_def split: if_splits)
  have dl: "length d \<le> length s"
    unfolding d_def by (rule order_trans [OF length_takeWhile_le]) simp
  from assms ne have rest: "rest = snd (cents (snd (thousands (drop (length d) s))))"
    by (auto simp: price_number_def d_def Let_def split: if_splits prod.splits)
  have "length rest \<le> length (snd (thousands (drop (length d) s)))"
    unfolding rest by (rule cents_length)
  also have "\<dots> \<le> length (drop (length d) s)"
    by (rule thousands_length)
  also have "\<dots> < length s"
    using ne dl by (cases d) auto
  finally show ?thesis .
qed

lemma dropWhile_shorter:
  "length (dropWhile P xs) < Suc (length xs)"
  "length (dropWhile P xs) < Suc (Suc (Suc (length xs)))"
  using length_dropWhile_le [of P xs] by simp_all

lemma price_prefix_length:
  "price_prefix prev s = Some t \<Longrightarrow> length t < length s"
  by (auto simp: price_prefix_def dropWhile_shorter split: list.splits if_splits)

lemma price_re_at_length:
  "price_re_at prev s = Some (g, rest) \<Longrightarrow> length rest < length s"
  by (auto simp: price_re_at_def split: if_splits option.splits
           dest!: price_number_length price_prefix_length)

lemma price_re_search_length:
  "price_re_search prev s = Some (g, rest) \<Longrightarrow> length rest < length s"
proof (induction s arbitrary: prev)
  case Nil
  then show ?case by simp
next
  case (Cons c cs)
  show ?case
  proof (cases "price_re_at prev (c # cs)")
    case None
    with Cons.prems have "price_re_search (Some c) cs = Some (g, rest)" by simp
    from Cons.IH [OF this] show ?thesis by simp
  next
    case (Some m)
    with Cons.prems have "price_re_at prev (c # cs) = Some (g, rest)" by simp
    then show ?thesis by (rule price_re_at_length)
  qed
qed

text \<open>
  \<^verbatim>\<open>PRICE_RE.finditer\<close>: the successive matches, each search starting where the last
  match ended; the last character of a match is the one the next look-behind sees.
\<close>

function price_re_finditer :: "nat option \<Rightarrow> ustring \<Rightarrow> ustring list" where
  "price_re_finditer prev s =
     (case price_re_search prev s of
        None \<Rightarrow> []
      | Some (g, rest) \<Rightarrow> g # price_re_finditer (Some (last g)) rest)"
  by pat_completeness auto
termination
  by (relation "measure (\<lambda>(prev, s). length s)") (auto dest: price_re_search_length)

declare price_re_finditer.simps [simp del]

section \<open>The price extractor\<close>

text \<open>
  The exceptions that can leave \<^verbatim>\<open>extract_price\<close> or a fetch. Nothing in
  \<^verbatim>\<open>extract_price\<close> catches the first three.
\<close>

datatype error = AttributeError | ValueError | OverflowError | TransportError string

text \<open>
  \<^verbatim>\<open>_as_eur(val)\<close> (app.py, lines 521-531). \<^verbatim>\<open>bool\<close> is a subclass of \<^verbatim>\<open>int\<close>, so
  \<^verbatim>\<open>isinstance(val, int)\<close> holds of both. \<open>int_of_digits\<close> is \<^verbatim>\<open>int(val)\<close> for a
  text that passed \<^verbatim>\<open>val.isdigit()\<close>: it reads decimal digits only and raises
  \<^verbatim>\<open>ValueError\<close> on any other digit character. \<open>int_to_float\<close> is the conversion of
  the integer in \<^verbatim>\<open>integer_value / 100.0\<close>, which raises \<^verbatim>\<open>OverflowError\<close> past the
  largest double.
\<close>

definition isinstance_int :: "json \<Rightarrow> bool" where
  "isinstance_int v = (case v of JInt i \<Rightarrow> True | JBool b \<Rightarrow> True | _ \<Rightarrow> False)"

definition str_isdigit :: "ustring \<Rightarrow> bool" where
  "str_isdigit s \<longleftrightarrow> s \<noteq> [] \<and> list_all is_digit s"

definition int_of_digits :: "ustring \<Rightarrow> error + nat" where
  "int_of_digits s =
     (case those (map decimal_value s) of
        None \<Rightarrow> Inl ValueError
      | Some ds \<Rightarrow> Inr (foldl (\<lambda>a d. 10 * a + d) 0 ds))"

definition int_to_float :: "nat \<Rightarrow> error + pyfloat" where
  "int_to_float n = (case mk_float (of_nat n) of PInf \<Rightarrow> Inl OverflowError | f \<Rightarrow> Inr f)"

definition as_eur :: "json \<Rightarrow> error + pyfloat option" where
  "as_eur val =
     (case try_float val of
        None \<Rightarrow>
          (case val of
             JStr s \<Rightarrow>
               if str_isdigit s then
                 (case int_of_digits s of
                    Inl e \<Rightarrow> Inl e
                  | Inr integer_value \<Rightarrow>
                      if 10000 \<le> integer_value
                      then (case int_to_float integer_value of
                              Inl e \<Rightarrow> Inl e
                            | Inr f \<Rightarrow> Inr (Some (fdiv f (Fin 100))))
                      else Inr None)
               else Inr None
           | _ \<Rightarrow> Inr None)
      | Some parsed \<Rightarrow>
          if fle (Fin 10000) parsed \<and> isinstance_int val
          then Inr (Some (fdiv parsed (Fin 100)))
          else Inr (Some parsed))"

text \<open>
  The parsed page, as \<^verbatim>\<open>BeautifulSoup(html, "lxml")\<close> presents it to
  \<^verbatim>\<open>extract_price\<close>:
  \<^item> \<open>soup_scripts\<close>: for each \<^verbatim>\<open>script\<close> tag of type \<^verbatim>\<open>application/ld+json\<close> or
    \<^verbatim>\<open>application/json\<close>, in document order, what \<^verbatim>\<open>json.loads(tag.string or "{}")\<close>
    returns, \<open>None\<close> when it raises;
  \<^item> \<open>soup_select\<close>: the element \<^verbatim>\<open>select_one\<close> finds for a selector, with its attributes
    and its \<^verbatim>\<open>get_text(" ")\<close>;
  \<^item> \<open>soup_text\<close>: \<^verbatim>\<open>soup.get_text(" ", strip=True)\<close>;
  \<^item> \<open>soup_title\<close>: \<^verbatim>\<open>soup.title.string\<close> when there is one.
\<close>

record element =
  el_attrs :: "(string \<times> ustring) list"
  el_text :: ustring

record soup =
  soup_scripts :: "json option list"
  soup_select :: "(string \<times> element) list"
  soup_text :: ustring
  soup_title :: "ustring option"

type_synonym extraction = "pyfloat option \<times> json \<times> string"

definition META_HINTS :: "(string \<times> string option) list" where
  "META_HINTS =
     [(''meta[property=\"product:price:amount\"]'', Some ''content''),
      (''meta[name=\"twitter:data1\"]'', Some ''content''),
      (''meta[itemprop=\"price\"]'', Some ''content''),
      (''span[itemprop=\"price\"]'', None),
      (''div[data-price]'', Some ''data-price''),
      (''span[data-price]'', Some ''data-price''),
      (''div[class*=\"price\"]'', None),
      (''span[class*=\"price\"]'', None)]"

text \<open>A loop whose body returns (\<open>Inr (Some r)\<close>), goes on (\<open>Inr None\<close>) or raises.\<close>

fun first_result :: "('a \<Rightarrow> error + 'b option) \<Rightarrow> 'a list \<Rightarrow> error + 'b option" where
  "first_result f [] = Inr None"
| "first_result f (x # xs) =
     (case f x of
        Inl e \<Rightarrow> Inl e
      | Inr (Some y) \<Rightarrow> Inr (Some y)
      | Inr None \<Rightarrow> first_result f xs)"

text \<open>The body of \<^verbatim>\<open>for obj in items\<close> (lines 516-543).\<close>

definition scan_offers :: "(ustring \<times> json) list \<Rightarrow> error + extraction option" where
  "scan_offers d =
     (case dict_get d (lit ''offers'') of
        JObj offers \<Rightarrow>
          (let raw = py_or (dict_get offers (lit ''price'')) (dict_get offers (lit ''lowPrice''));
               currency = py_or (dict_get offers (lit ''priceCurrency'')) (JStr (lit ''EUR''))
           in case as_eur raw of
                Inl e \<Rightarrow> Inl e
              | Inr (Some converted) \<Rightarrow> Inr (Some (Some converted, currency, ''jsonld''))
              | Inr None \<Rightarrow> Inr None)
      | _ \<Rightarrow> Inr None)"

definition scan_root :: "(ustring \<times> json) list \<Rightarrow> error + extraction option" where
  "scan_root d =
     (case map_of d (lit ''price'') of
        None \<Rightarrow> Inr None
      | Some raw \<Rightarrow>
          (case as_eur raw of
             Inl e \<Rightarrow> Inl e
           | Inr (Some converted) \<Rightarrow>
               Inr (Some (Some converted,
                          (case map_of d (lit ''priceCurrency'') of
                             None \<Rightarrow> JStr (lit ''EUR'') | Some c \<Rightarrow> c),
                          ''jsonld-root''))
           | Inr None \<Rightarrow> Inr None))"

definition scan_object :: "json \<Rightarrow> error + extraction option" where
  "scan_object obj =
     (case obj of
        JObj d \<Rightarrow>
          (case scan_offers d of
             Inl e \<Rightarrow> Inl e
           | Inr (Some r) \<Rightarrow> Inr (Some r)
           | Inr None \<Rightarrow> scan_root d)
      | _ \<Rightarrow> Inr None)"

definition scan_script :: "json option \<Rightarrow> error + extraction option" where
  "scan_script loaded =
     (case loaded of
        None \<Rightarrow> Inr None
      | Some data \<Rightarrow>
          first_result scan_object (case data of JArr items \<Rightarrow> items | _ \<Rightarrow> [data]))"

definition structured_data :: "soup \<Rightarrow> error + extraction option" where
  "structured_data sp = first_result scan_script (soup_scripts sp)"

text \<open>
  The loop over \<^verbatim>\<open>META_HINTS\<close> (lines 545-552). \<^verbatim>\<open>element.get(attr)\<close> is \<^verbatim>\<open>None\<close> for
  an element without the attribute and \<^verbatim>\<open>None.strip()\<close> raises \<^verbatim>\<open>AttributeError\<close>.
  The first match is returned whatever \<^verbatim>\<open>normalize_euro\<close> makes of it.
\<close>

definition scan_hint :: "soup \<Rightarrow> string \<times> string option \<Rightarrow> error + extraction option" where
  "scan_hint sp h =
     (case h of (selector, attr) \<Rightarrow>
        (case map_of (soup_select sp) selector of
           None \<Rightarrow> Inr None
         | Some element \<Rightarrow>
             (case (case attr of
                      Some a \<Rightarrow> map_of (el_attrs element) a
                    | None \<Rightarrow> Some (el_text element)) of
                None \<Rightarrow> Inl AttributeError
              | Some v \<Rightarrow>
                  (case price_re_search None (py_strip v) of
                     Some (g, rest) \<Rightarrow>
                       Inr (Some (normalize_euro g, JStr (lit ''EUR''), ''selector:'' @ selector))
                   | None \<Rightarrow> Inr None))))"

definition scan_hints :: "soup \<Rightarrow> error + extraction option" where
  "scan_hints sp = first_result (scan_hint sp) META_HINTS"

text \<open>
  \<^verbatim>\<open>list.sort()\<close> compares with \<^verbatim>\<open><\<close> only and is stable; on the candidates, which are
  never NaN, an insertion sort gives the same list.
\<close>

fun sort_insert :: "pyfloat \<Rightarrow> pyfloat list \<Rightarrow> pyfloat list" where
  "sort_insert x [] = [x]"
| "sort_insert x (y # ys) = (if flt y x then y # sort_insert x ys else x # y # ys)"

fun py_sort :: "pyfloat list \<Rightarrow> pyfloat list" where
  "py_sort [] = []"
| "py_sort (x # xs) = sort_insert x (py_sort xs)"

text \<open>Lines 554-560.\<close>

definition text_candidates :: "soup \<Rightarrow> pyfloat list" where
  "text_candidates sp =
     List.map_filter normalize_euro (price_re_finditer None (soup_text sp))"

definition text_fallback :: "soup \<Rightarrow> extraction" where
  "text_fallback sp =
     (let candidates = text_candidates sp
      in if candidates \<noteq> []
         then (Some (py_sort candidates ! (length candidates div 2)), JStr (lit ''EUR''),
               ''text-fallback'')
         else (None, JStr (lit ''EUR''), ''none''))"

text \<open>\<^verbatim>\<open>extract_price(html)\<close> (lines 508-560); \<open>Inl\<close> is an exception that escapes.\<close>

definition extract_price :: "soup \<Rightarrow> error + extraction" where
  "extract_price sp =
     (case structured_data sp of
        Inl e \<Rightarrow> Inl e
      | Inr (Some r) \<Rightarrow> Inr r
      | Inr None \<Rightarrow>
          (case scan_hints sp of
             Inl e \<Rightarrow> Inl e
           | Inr (Some r) \<Rightarrow> Inr r
           | Inr None \<Rightarrow> Inr (text_fallback sp)))"

section \<open>The scrape cycle\<close>

text \<open>
  \<^verbatim>\<open>App.__init__\<close> (lines 82-93): the numeric options go through \<^verbatim>\<open>try_float(...) or d\<close>,
  which takes the default for \<^verbatim>\<open>None\<close> and for zero alike. \<open>options\<close> and a site's entry
  are the dictionaries of \<^verbatim>\<open>options.json\<close>.
\<close>

definition float_or :: "pyfloat option \<Rightarrow> 'a \<Rightarrow> (pyfloat \<Rightarrow> 'a) \<Rightarrow> 'a" where
  "float_or x d f = (case x of None \<Rightarrow> d | Some v \<Rightarrow> if float_truthy v then f v else d)"

definition init_min_price :: "(ustring \<times> json) list \<Rightarrow> pyfloat" where
  "init_min_price options =
     float_or (try_float (dict_get options (lit ''min_price''))) (Fin 0) (\<lambda>v. v)"

definition init_max_price :: "(ustring \<times> json) list \<Rightarrow> pyfloat" where
  "init_max_price options =
     float_or (try_float (dict_get options (lit ''max_price''))) (Fin 1000000000) (\<lambda>v. v)"

definition init_price_divisor :: "(ustring \<times> json) list \<Rightarrow> pyfloat option" where
  "init_price_divisor s =
     float_or (try_float (dict_get s (lit ''price_divisor''))) None Some"

record site =
  site_id :: ustring
  site_url :: ustring
  site_title :: "ustring option"
  price_divisor :: "pyfloat option"

record app =
  min_price :: pyfloat
  max_price :: pyfloat
  sites :: "site list"

text \<open>
  The collaborators. \<open>fetch s p\<close> is \<^verbatim>\<open>await client.get(site.url, headers=...)\<close> with the
  primary or the alternate header profile: a response (status code and body, the body
  already parsed) or the exception it raises, carried as the text
  \<^verbatim>\<open>f"{type(exc).__name__}: {exc}"\<close>.
\<close>

datatype profile = Primary | Alternate

datatype response = Response int soup

record env =
  fetch :: "site \<Rightarrow> profile \<Rightarrow> error + response"

text \<open>
  What a cycle emits: the MQTT messages (discovery, state, attributes) and the log records
  of level warning and above. The attributes of an error carry the message and, for
  \<^verbatim>\<open>price_out_of_range\<close>, the extra fields title, raw_price, min, max and method.
\<close>

datatype payload =
  PriceAttrs ustring ustring json string int
| ErrorAttrs string "(ustring \<times> pyfloat \<times> pyfloat \<times> pyfloat \<times> string) option"

datatype event =
  Discovery ustring
| State ustring "pyfloat option"
| Attr ustring payload
| Log string

text \<open>\<^verbatim>\<open>publish_error\<close> (lines 338-357).\<close>

definition publish_error ::
  "site \<Rightarrow> string \<Rightarrow> (ustring \<times> pyfloat \<times> pyfloat \<times> pyfloat \<times> string) option \<Rightarrow> event list" where
  "publish_error s msg extra =
     [Log ''Publishing error state.'',
      State (site_id s) None,
      Attr (site_id s) (ErrorAttrs msg extra)]"

text \<open>\<^verbatim>\<open>derive_title(html) or site.title or site.id\<close>\<close>

definition derive_title :: "soup \<Rightarrow> ustring option" where
  "derive_title html =
     (case soup_title html of
        None \<Rightarrow> None
      | Some t \<Rightarrow> if t \<noteq> [] then Some (py_strip t) else None)"

definition title_of :: "soup \<Rightarrow> site \<Rightarrow> ustring" where
  "title_of html s =
     (case derive_title html of
        Some t \<Rightarrow> if t \<noteq> [] then t else
          (case site_title s of Some u \<Rightarrow> if u \<noteq> [] then u else site_id s | None \<Rightarrow> site_id s)
      | None \<Rightarrow>
          (case site_title s of Some u \<Rightarrow> if u \<noteq> [] then u else site_id s | None \<Rightarrow> site_id s))"

text \<open>Lines 257-265: the configured divisor. The result is price, method and log.\<close>

definition apply_divisor ::
  "site \<Rightarrow> pyfloat \<Rightarrow> string \<Rightarrow> pyfloat \<times> string \<times> event list" where
  "apply_divisor s price method =
     (case price_divisor s of
        None \<Rightarrow> (price, method, [])
      | Some d \<Rightarrow>
          if float_truthy d then
            (if flt (Fin 0) d
             then (fdiv price d, method @ ''+div'' @ fmt_g d, [])
             else (price, method, [Log ''Configured price_divisor must be greater than 0.'']))
          else (price, method, []))"

text \<open>Lines 266-276: the bounds check and its two repairs; \<open>None\<close> is the rejection.\<close>

definition in_bounds :: "app \<Rightarrow> pyfloat \<Rightarrow> bool" where
  "in_bounds a p \<longleftrightarrow> fle (min_price a) p \<and> fle p (max_price a)"

definition plausibility :: "app \<Rightarrow> pyfloat \<Rightarrow> string \<Rightarrow> (pyfloat \<times> string) option" where
  "plausibility a price method =
     (if in_bounds a price then Some (price, method)
      else if in_bounds a (fdiv price (Fin 100))
        then Some (fdiv price (Fin 100), method @ ''+heuristic_div100'')
      else if in_bounds a (fdiv price (Fin 10))
        then Some (fdiv price (Fin 10), method @ ''+heuristic_div10'')
      else None)"

text \<open>Lines 304-334: the state and attribute messages of a result.\<close>

definition publish_price ::
  "site \<Rightarrow> ustring \<Rightarrow> pyfloat option \<Rightarrow> json \<Rightarrow> string \<Rightarrow> string \<Rightarrow> int \<Rightarrow> event list" where
  "publish_price s title price currency method method_hint status =
     [State (site_id s) price,
      Attr (site_id s)
        (PriceAttrs title (site_url s) (py_or currency (JStr (lit ''EUR'')))
           (method @ ''+'' @ method_hint) status)]"

text \<open>Lines 253-334: what follows a fetch that delivered a page.\<close>

definition process_page ::
  "env \<Rightarrow> app \<Rightarrow> site \<Rightarrow> int \<Rightarrow> soup \<Rightarrow> string \<Rightarrow> error + event list" where
  "process_page e a s status html method_hint =
     (case extract_price html of
        Inl err \<Rightarrow> Inl err
      | Inr (price, currency, method) \<Rightarrow>
          (let title = title_of html s
           in case price of
                None \<Rightarrow>
                  Inr (Log ''Failed to detect a price.''
                       # publish_price s title None currency method method_hint status)
              | Some p \<Rightarrow>
                  (let (p1, m1, logs) = apply_divisor s p method
                   in case plausibility a p1 m1 of
                        Some (p2, m2) \<Rightarrow>
                          Inr (logs @ publish_price s title (Some p2) currency m2 method_hint status)
                      | None \<Rightarrow>
                          Inr (logs @ Log ''Price outside configured bounds.''
                               # publish_error s ''price_out_of_range''
                                   (Some (title, p1, min_price a, max_price a, m1))))))"

text \<open>
  \<^verbatim>\<open>resp.raise_for_status()\<close> raises \<^verbatim>\<open>HTTPStatusError\<close> for a status outside 2xx (httpx
  0.25 and later; 403 and 406 raise in every version).
\<close>

definition raises_for_status :: "int \<Rightarrow> bool" where
  "raises_for_status status \<longleftrightarrow> \<not> (200 \<le> status \<and> status \<le> 299)"

definition after_page :: "event list \<Rightarrow> error + event list \<Rightarrow> event list \<times> error option" where
  "after_page pre r = (case r of Inl err \<Rightarrow> (pre, Some err) | Inr evs \<Rightarrow> (pre @ evs, None))"

definition exc_text :: "error \<Rightarrow> string" where
  "exc_text err =
     (case err of
        TransportError t \<Rightarrow> t
      | AttributeError \<Rightarrow> ''AttributeError''
      | ValueError \<Rightarrow> ''ValueError''
      | OverflowError \<Rightarrow> ''OverflowError'')"

text \<open>
  The body of \<^verbatim>\<open>for site in self.sites\<close> (lines 202-334). The second component is the
  exception that leaves the loop, if any: the retry is awaited inside the handler of
  \<^verbatim>\<open>HTTPStatusError\<close>, where the sibling \<^verbatim>\<open>except Exception\<close> does not apply, and
  \<^verbatim>\<open>extract_price\<close> is called outside the \<^verbatim>\<open>try\<close>.
\<close>

definition scrape_site :: "env \<Rightarrow> app \<Rightarrow> site \<Rightarrow> event list \<times> error option" where
  "scrape_site e a s =
     (case fetch e s Primary of
        Inl err \<Rightarrow>
          (Discovery (site_id s) # Log ''Unexpected exception while fetching site.''
             # publish_error s (exc_text err) None, None)
      | Inr (Response status html) \<Rightarrow>
          if raises_for_status status then
            (if status = 403 \<or> status = 406 then
               (case fetch e s Alternate of
                  Inl err \<Rightarrow>
                    ([Discovery (site_id s),
                      Log ''Received blocking status; retrying with alternate headers.''],
                     Some err)
                | Inr (Response status2 html2) \<Rightarrow>
                    after_page
                      [Discovery (site_id s),
                       Log ''Received blocking status; retrying with alternate headers.'']
                      (process_page e a s status2 html2 ''retry''))
             else
               (Discovery (site_id s) # Log ''HTTP request failed after retries.''
                  # publish_error s (''HTTP '' @ int_str status) None, None))
          else after_page [Discovery (site_id s)] (process_page e a s status html ''ok''))"

fun scrape_sites :: "env \<Rightarrow> app \<Rightarrow> site list \<Rightarrow> event list \<times> error option" where
  "scrape_sites e a [] = ([], None)"
| "scrape_sites e a (s # ss) =
     (case scrape_site e a s of
        (evs, Some err) \<Rightarrow> (evs, Some err)
      | (evs, None) \<Rightarrow> (let (evs', r) = scrape_sites e a ss in (evs @ evs', r)))"

text \<open>\<^verbatim>\<open>scrape_once\<close> (lines 184-336).\<close>

definition scrape_once :: "env \<Rightarrow> app \<Rightarrow> event list \<times> error option" where
  "scrape_once e a =
     (if sites a = [] then ([Log ''No sites configured; skipping scrape cycle.''], None)
      else scrape_sites e a (sites a))"

section \<open>Concrete inputs\<close>

text \<open>Configurations, sites, collaborators and pages on which the theorems below are run.\<close>

definition bounds :: "pyfloat \<Rightarrow> pyfloat \<Rightarrow> app" where
  "bounds lo hi = \<lparr>min_price = lo, max_price = hi, sites = []\<rparr>"

definition demo_site :: site where
  "demo_site = \<lparr>site_id = lit ''shop'', site_url = lit ''https://shop.example/p'',
     site_title = None, price_divisor = None\<rparr>"


definition jsonld_page :: "json \<Rightarrow> soup" where
  "jsonld_page price =
     \<lparr>soup_scripts = [Some (JObj [(lit ''offers'', JObj [(lit ''price'', price)])])],
      soup_select = [], soup_text = [], soup_title = None\<rparr>"

text \<open>The demonstration site with its divisor read from a configured value.\<close>

definition site_with :: "json \<Rightarrow> site" where
  "site_with v = demo_site\<lparr>price_divisor := init_price_divisor [(lit ''price_divisor'', v)]\<rparr>"


text \<open>A page with nothing but rendered text.\<close>

definition text_page :: "ustring \<Rightarrow> soup" where
  "text_page t = \<lparr>soup_scripts = [], soup_select = [], soup_text = t, soup_title = None\<rparr>"

text \<open>
  A page whose only price hint is a \<^verbatim>\<open>span\<close> with the attribute \<^verbatim>\<open>data-price\<close>, and a page
  with a \<^verbatim>\<open>meta\<close> tag of property \<^verbatim>\<open>product:price:amount\<close> that has no \<^verbatim>\<open>content\<close>.
\<close>

definition span_page :: "ustring \<Rightarrow> ustring \<Rightarrow> soup" where
  "span_page v t =
     \<lparr>soup_scripts = [],
      soup_select = [(''span[data-price]'', \<lparr>el_attrs = [(''data-price'', v)], el_text = []\<rparr>)],
      soup_text = t, soup_title = None\<rparr>"

definition bare_meta_page :: soup where
  "bare_meta_page =
     \<lparr>soup_scripts = [],
      soup_select = [(''meta[property=\"product:price:amount\"]'',
                      \<lparr>el_attrs = [], el_text = []\<rparr>)],
      soup_text = [], soup_title = None\<rparr>"

text \<open>A page with a structured-data price and a different price in a selector.\<close>

definition both_page :: "json \<Rightarrow> ustring \<Rightarrow> soup" where
  "both_page price v =
     \<lparr>soup_scripts = [Some (JObj [(lit ''offers'', JObj [(lit ''price'', price)])])],
      soup_select = [(''span[data-price]'', \<lparr>el_attrs = [(''data-price'', v)], el_text = []\<rparr>)],
      soup_text = [], soup_title = None\<rparr>"

section \<open>Evaluation\<close>

text \<open>Floors and ceilings of quotients of numerals, for evaluating \<open>mk_float\<close>.\<close>

lemma floor_numeral_div: "\<lfloor>numeral a / numeral b :: rat\<rfloor> = numeral a div numeral b"
  using floor_divide_of_int_eq [where ?'a = rat, of "numeral a" "numeral b"] by simp

lemma ceiling_numeral_div: "\<lceil>numeral a / numeral b :: rat\<rceil> = - (- numeral a div numeral b)"
proof -
  have "\<lfloor>- (numeral a / numeral b :: rat)\<rfloor> = - numeral a div numeral b"
    using floor_divide_of_int_eq [where ?'a = rat, of "- numeral a" "numeral b"] by simp
  then show ?thesis
    unfolding ceiling_def by (rule arg_cong)
qed

lemmas float_round = mk_float_def finite_or_inf_def round_double_def round_to_quantum_def
  binary_exponent_def log2_floor.simps log2_ceil_def pow2_def round_half_even_def
  floor_numeral_div ceiling_numeral_div


lemmas text_eval = ch_def lit_def is_space_def is_c_space_def is_ascii_digit_def ascii_lower_def
  is_decimal_def decimal_value_def decimal_zeros_def py_strip_def c_strip_def remove_char_def
  replace_char_def

lemmas float_eval = text_eval normalize_euro_def try_float_str_def fix_separators_def py_float_def
  ascii_float_def to_ascii_def split_sign_def parse_number_def parse_mantissa_def
  parse_exponent_def pow10_def digitpart_def digits_val_def digit_val_def

section \<open>Texts of ASCII digits\<close>

lemma ascii_digit_facts:
  assumes "is_ascii_digit c"
  shows "\<not> is_space c" "\<not> is_c_space c" "c < 128" "ascii_lower c = c"
    "c \<noteq> ch CHR ''.''" "c \<noteq> ch CHR '',''" "c \<noteq> ch CHR '' ''" "c \<noteq> ch CHR ''-''"
    "c \<noteq> ch CHR ''+''" "c \<noteq> ch CHR ''e''" "c \<noteq> ch CHR ''E''" "c \<noteq> ch CHR ''_''"
    "c \<noteq> ch CHR ''i''" "c \<noteq> ch CHR ''n''"
  using assms
  by (auto simp: is_ascii_digit_def is_space_def is_c_space_def ascii_lower_def ch_def)

lemma not_ascii_digit:
  "\<not> is_ascii_digit (ch CHR ''e'')" "\<not> is_ascii_digit (ch CHR ''E'')"
  "\<not> is_ascii_digit (ch CHR ''.'')" "\<not> is_ascii_digit (ch CHR '','')"
  "\<not> is_ascii_digit (ch CHR '' '')" "\<not> is_ascii_digit (ch CHR ''-'')"
  "\<not> is_ascii_digit (ch CHR ''+'')" "\<not> is_ascii_digit (ch CHR ''_'')"
  by (simp_all add: is_ascii_digit_def ch_def)


lemma to_ascii_id: "\<forall>c \<in> set s. c < 128 \<Longrightarrow> to_ascii s = Some s"
  by (induction s) (auto simp: to_ascii_def)

lemma strip_id:
  assumes "s \<noteq> []" "\<not> P (hd s)" "\<not> P (last s)"
  shows "rev (dropWhile P (rev (dropWhile P s))) = s"
proof -
  from assms have 1: "dropWhile P s = s"
    by (cases s) auto
  from assms have 2: "dropWhile P (rev s) = rev s"
    by (cases "rev s") (auto simp: hd_rev)
  show ?thesis by (simp add: 1 2)
qed

lemma digitpart_tail_digits: "list_all is_ascii_digit s \<Longrightarrow> digitpart_tail s"
  by (induction s) auto

lemma digitpart_digits: "list_all is_ascii_digit s \<Longrightarrow> s \<noteq> [] \<Longrightarrow> digitpart s"
  by (cases s) (auto simp: digitpart_def digitpart_tail_digits)


lemma not_word_digits:
  assumes "is_ascii_digit (hd s)" "s \<noteq> []"
  shows "map ascii_lower s \<noteq> lit ''inf''" "map ascii_lower s \<noteq> lit ''infinity''"
    "map ascii_lower s \<noteq> lit ''nan''"
proof -
  obtain c cs where s: "s = c # cs"
    using assms(2) by (cases s) auto
  have c: "ascii_lower c = c" "c \<noteq> ch CHR ''i''" "c \<noteq> ch CHR ''n''"
    using assms(1) by (simp_all add: s ascii_digit_facts)
  show "map ascii_lower s \<noteq> lit ''inf''" "map ascii_lower s \<noteq> lit ''infinity''"
    "map ascii_lower s \<noteq> lit ''nan''"
    by (simp_all add: s c lit_def)
qed

lemma parse_mantissa_digits:
  assumes "list_all is_ascii_digit a" "a \<noteq> []"
  shows "parse_mantissa a = Some (of_nat (digits_val a))"
proof -
  have "\<forall>c \<in> set a. c \<noteq> ch CHR ''.''"
    using assms(1) by (auto simp: list_all_iff not_ascii_digit)
  then have t: "takeWhile (\<lambda>c. c \<noteq> ch CHR ''.'') a = a"
    and d: "dropWhile (\<lambda>c. c \<noteq> ch CHR ''.'') a = []"
    by simp_all
  show ?thesis
    using assms by (simp add: parse_mantissa_def t d digitpart_digits)
qed


lemma parse_number_no_exp:
  assumes "\<forall>c \<in> set s. c \<noteq> ch CHR ''e'' \<and> c \<noteq> ch CHR ''E''"
  shows "parse_number s = parse_mantissa s"
proof -
  from assms have t: "takeWhile (\<lambda>c. c \<noteq> ch CHR ''e'' \<and> c \<noteq> ch CHR ''E'') s = s"
    and d: "dropWhile (\<lambda>c. c \<noteq> ch CHR ''e'' \<and> c \<noteq> ch CHR ''E'') s = []"
    by simp_all
  show ?thesis
    by (simp add: parse_number_def t d split: option.splits)
qed

lemma ascii_float_unsigned:
  assumes "s \<noteq> []" "is_ascii_digit (hd s)" "is_ascii_digit (last s)"
  shows "ascii_float s = map_option mk_float (parse_number s)"
proof -
  have st: "c_strip s = s"
    unfolding c_strip_def using assms by (intro strip_id) (auto simp: ascii_digit_facts)
  have sg: "split_sign s = (False, s)"
    using assms by (cases s) (auto simp: split_sign_def ascii_digit_facts)
  show ?thesis
    using not_word_digits [OF assms(2,1)]
    by (simp add: ascii_float_def st sg split: option.splits)
qed

lemma py_float_digits:
  assumes "list_all is_ascii_digit a" "a \<noteq> []"
  shows "py_float a = Some (mk_float (of_nat (digits_val a)))"
proof -
  have h: "is_ascii_digit (hd a)" "is_ascii_digit (last a)"
    using assms by (auto simp: list_all_iff)
  have ne: "\<forall>c \<in> set a. c \<noteq> ch CHR ''e'' \<and> c \<noteq> ch CHR ''E''"
    using assms(1) by (auto simp: list_all_iff not_ascii_digit)
  have as: "to_ascii a = Some a"
    using assms(1) by (intro to_ascii_id) (auto simp: list_all_iff ascii_digit_facts)
  show ?thesis
    using assms
    by (simp add: py_float_def as ascii_float_unsigned h parse_number_no_exp ne
        parse_mantissa_digits)
qed


section \<open>Separators\<close>



lemma candidate_digits:
  assumes "s \<noteq> []" "\<forall>c \<in> set s. is_ascii_digit c \<or> c = ch CHR ''.'' \<or> c = ch CHR '',''"
    "is_ascii_digit (hd s)" "is_ascii_digit (last s)"
  shows "remove_char (ch CHR '' '') (py_strip s) = s"
proof -
  have "py_strip s = s"
    unfolding py_strip_def using assms by (intro strip_id) (auto simp: ascii_digit_facts)
  moreover have "\<forall>c \<in> set s. c \<noteq> ch CHR '' ''"
    using assms(2) by (auto simp: is_ascii_digit_def ch_def)
  ultimately show ?thesis
    by (simp add: remove_char_def)
qed

lemma digits_plain:
  assumes "list_all is_ascii_digit s"
  shows "filter (\<lambda>x. x \<noteq> ch CHR ''.'') s = s"
    "map (\<lambda>x. if x = ch CHR '','' then ch CHR ''.'' else x) s = s"
    "ch CHR '','' \<notin> set s" "ch CHR ''.'' \<notin> set s" "ch CHR '' '' \<notin> set s"
  using assms by (induction s) (auto simp: ascii_digit_facts not_ascii_digit)



section \<open>The number normaliser\<close>



section \<open>Plausibility correction\<close>




section \<open>The configured divisor\<close>

lemmas option_eval = init_price_divisor_def init_min_price_def init_max_price_def float_or_def
  float_truthy_def dict_get_def try_float_def int_str_def nat_str.simps digit_char_def
  float_eval float_round




section \<open>Falsy-or coercion of the numeric options\<close>

text \<open>
  Claim C10. A numeric option that is missing, does not parse, or parses to zero falls
  back silently: the lower bound becomes 0.0 and the upper bound 1e9 (so a configured
  \<^verbatim>\<open>max_price\<close> of \<^verbatim>\<open>"0"\<close> is replaced by 1e9), and a \<^verbatim>\<open>price_divisor\<close> of 0 is read as
  no divisor: the price and method are left as they are and no warning is logged. A text
  that \<^verbatim>\<open>float()\<close> rounds to zero, such as \<^verbatim>\<open>"1e-324"\<close>, parses to zero; a text with a
  character \<^verbatim>\<open>float()\<close> rejects does not parse.
\<close>

theorem init_fallback:
  "(try_float (dict_get options (lit ''min_price'')) = None
      \<or> try_float (dict_get options (lit ''min_price'')) = Some (Fin 0) \<longrightarrow>
      init_min_price options = Fin 0) \<and>
   (try_float (dict_get options (lit ''max_price'')) = None
      \<or> try_float (dict_get options (lit ''max_price'')) = Some (Fin 0) \<longrightarrow>
      init_max_price options = Fin 1000000000) \<and>
   (try_float (dict_get sd (lit ''price_divisor'')) = None
      \<or> try_float (dict_get sd (lit ''price_divisor'')) = Some (Fin 0) \<longrightarrow>
      init_price_divisor sd = None) \<and>
   (try_float (dict_get sd (lit ''price_divisor'')) = Some (Fin 0)
      \<and> price_divisor s = init_price_divisor sd \<longrightarrow>
      apply_divisor s p m = (p, m, [])) \<and>
   init_min_price [] = Fin 0 \<and> init_max_price [] = Fin 1000000000 \<and>
   init_min_price [(lit ''min_price'', JStr (lit ''cheap''))] = Fin 0 \<and>
   init_min_price [(lit ''min_price'', JStr [ch CHR ''.'', 28, ch CHR ''5''])] = Fin 0 \<and>
   init_max_price [(lit ''max_price'', JStr (lit ''0''))] = Fin 1000000000 \<and>
   init_max_price [(lit ''max_price'', JInt 0)] = Fin 1000000000 \<and>
   init_max_price [(lit ''max_price'', JStr (lit ''1e-324''))] = Fin 1000000000 \<and>
   init_price_divisor [(lit ''price_divisor'', JStr (lit ''1e-324''))] = None"
proof -
  have tiny: "try_float (JStr (lit ''1e-324'')) = Some (Fin 0)"
    by (simp add: option_eval)
  have c: "init_min_price [] = Fin 0" "init_max_price [] = Fin 1000000000"
    "init_min_price [(lit ''min_price'', JStr (lit ''cheap''))] = Fin 0"
    "init_min_price [(lit ''min_price'', JStr [ch CHR ''.'', 28, ch CHR ''5''])] = Fin 0"
    "init_max_price [(lit ''max_price'', JStr (lit ''0''))] = Fin 1000000000"
    "init_max_price [(lit ''max_price'', JInt 0)] = Fin 1000000000"
    by (simp_all add: option_eval)
  have c2: "init_max_price [(lit ''max_price'', JStr (lit ''1e-324''))] = Fin 1000000000"
    "init_price_divisor [(lit ''price_divisor'', JStr (lit ''1e-324''))] = None"
    using tiny
    by (simp_all add: init_max_price_def init_price_divisor_def float_or_def float_truthy_def
        dict_get_def)
  have gen: "(try_float (dict_get options (lit ''min_price'')) = None
      \<or> try_float (dict_get options (lit ''min_price'')) = Some (Fin 0) \<longrightarrow>
      init_min_price options = Fin 0) \<and>
   (try_float (dict_get options (lit ''max_price'')) = None
      \<or> try_float (dict_get options (lit ''max_price'')) = Some (Fin 0) \<longrightarrow>
      init_max_price options = Fin 1000000000) \<and>
   (try_float (dict_get sd (lit ''price_divisor'')) = None
      \<or> try_float (dict_get sd (lit ''price_divisor'')) = Some (Fin 0) \<longrightarrow>
      init_price_divisor sd = None) \<and>
   (try_float (dict_get sd (lit ''price_divisor'')) = Some (Fin 0)
      \<and> price_divisor s = init_price_divisor sd \<longrightarrow>
      apply_divisor s p m = (p, m, []))"
    by (auto simp: init_min_price_def init_max_price_def init_price_divisor_def float_or_def
          float_truthy_def apply_divisor_def)
  from gen c c2 show ?thesis
    by simp
qed

theorem init_fallback_witness:
  "try_float (dict_get [(lit ''min_price'', JStr (lit ''cheap''))] (lit ''min_price'')) = None \<and>
   init_min_price [(lit ''min_price'', JStr (lit ''cheap''))] = Fin 0 \<and>
   try_float (dict_get [(lit ''max_price'', JStr (lit ''0''))] (lit ''max_price'')) = Some (Fin 0) \<and>
   init_max_price [(lit ''max_price'', JStr (lit ''0''))] = Fin 1000000000 \<and>
   try_float (dict_get [(lit ''price_divisor'', JInt 0)] (lit ''price_divisor'')) = Some (Fin 0) \<and>
   init_price_divisor [(lit ''price_divisor'', JInt 0)] = None \<and>
   price_divisor (site_with (JInt 0)) = init_price_divisor [(lit ''price_divisor'', JInt 0)] \<and>
   apply_divisor (site_with (JInt 0)) (Fin 50) ''jsonld'' = (Fin 50, ''jsonld'', [])"
proof -
  have h: "try_float (dict_get [(lit ''min_price'', JStr (lit ''cheap''))] (lit ''min_price'')) = None"
    "try_float (dict_get [(lit ''max_price'', JStr (lit ''0''))] (lit ''max_price'')) = Some (Fin 0)"
    "try_float (dict_get [(lit ''price_divisor'', JInt 0)] (lit ''price_divisor'')) = Some (Fin 0)"
    by (simp_all add: option_eval)
  have n: "price_divisor (site_with (JInt 0)) = init_price_divisor [(lit ''price_divisor'', JInt 0)]"
    by (simp add: site_with_def)
  note r = init_fallback [where sd = "[(lit ''price_divisor'', JInt 0)]"
        and s = "site_with (JInt 0)" and p = "Fin 50" and m = "''jsonld''"]
  have r1: "init_min_price [(lit ''min_price'', JStr (lit ''cheap''))] = Fin 0"
    using r [where options = "[(lit ''min_price'', JStr (lit ''cheap''))]"] h by simp
  have r2: "init_max_price [(lit ''max_price'', JStr (lit ''0''))] = Fin 1000000000"
    using r [where options = "[(lit ''max_price'', JStr (lit ''0''))]"] h by simp
  have r3: "init_price_divisor [(lit ''price_divisor'', JInt 0)] = None"
    "apply_divisor (site_with (JInt 0)) (Fin 50) ''jsonld'' = (Fin 50, ''jsonld'', [])"
    using r [where options = "[]"] h n by simp_all
  show ?thesis
    by (intro conjI; (rule h n r1 r2 r3))
qed

section \<open>Decimal digits\<close>

lemma decimal_value_cases:
  assumes "decimal_value c = Some d"
  shows "\<exists>z \<in> set decimal_zeros. z \<le> c \<and> c < z + 10 \<and> d = c - z"
proof -
  from assms obtain z where f: "find (\<lambda>z. z \<le> c \<and> c < z + 10) decimal_zeros = Some z"
    and d: "d = c - z"
    by (auto simp: decimal_value_def split: option.splits)
  from f have "z \<in> set decimal_zeros" "z \<le> c \<and> c < z + 10"
    by (auto simp: find_Some_iff)
  with d show ?thesis by blast
qed

lemma decimal_facts:
  assumes "decimal_value c = Some d"
  shows "d < 10" "\<not> is_space c" "c < 128 \<Longrightarrow> c = 48 + d"
    "c \<noteq> ch CHR ''.''" "c \<noteq> ch CHR '',''" "c \<noteq> ch CHR '' ''"
proof -
  from decimal_value_cases [OF assms] obtain z
    where z: "z \<in> set decimal_zeros" "z \<le> c" "c < z + 10" "d = c - z"
    by blast
  show "d < 10" using z by simp
  have la: "list_all (\<lambda>z. (z = 48 \<or> 1632 \<le> z)
      \<and> \<not> is_space z \<and> \<not> is_space (z + 1) \<and> \<not> is_space (z + 2) \<and> \<not> is_space (z + 3)
      \<and> \<not> is_space (z + 4) \<and> \<not> is_space (z + 5) \<and> \<not> is_space (z + 6) \<and> \<not> is_space (z + 7)
      \<and> \<not> is_space (z + 8) \<and> \<not> is_space (z + 9)) decimal_zeros"
    by (simp add: decimal_zeros_def is_space_def)
  from la z(1) have r: "z = 48 \<or> 1632 \<le> z"
    and s: "\<not> is_space z \<and> \<not> is_space (z + 1) \<and> \<not> is_space (z + 2) \<and> \<not> is_space (z + 3)
    \<and> \<not> is_space (z + 4) \<and> \<not> is_space (z + 5) \<and> \<not> is_space (z + 6) \<and> \<not> is_space (z + 7)
    \<and> \<not> is_space (z + 8) \<and> \<not> is_space (z + 9)"
    unfolding list_all_iff by blast+
  have "c = z \<or> c = z + 1 \<or> c = z + 2 \<or> c = z + 3 \<or> c = z + 4 \<or> c = z + 5 \<or> c = z + 6
    \<or> c = z + 7 \<or> c = z + 8 \<or> c = z + 9"
    using z(2,3) by arith
  with s show "\<not> is_space c" by auto
  show "c < 128 \<Longrightarrow> c = 48 + d" using r z by auto
  show "c \<noteq> ch CHR ''.''" "c \<noteq> ch CHR '',''" "c \<noteq> ch CHR '' ''"
    using r z by (auto simp: ch_def)
qed

lemma to_ascii_decimal:
  assumes "list_all is_decimal s"
  shows "\<exists>a. to_ascii s = Some a \<and> list_all is_ascii_digit a \<and> length a = length s"
  using assms
proof (induction s)
  case Nil
  then show ?case by (simp add: to_ascii_def)
next
  case (Cons c cs)
  from Cons.prems obtain d where d: "decimal_value c = Some d"
    by (auto simp: is_decimal_def)
  from Cons obtain a where a: "to_ascii cs = Some a" "list_all is_ascii_digit a"
    "length a = length cs"
    by auto
  have c: "(if c < 128 then Some c else if is_space c then Some 32
            else map_option (\<lambda>d. 48 + d) (decimal_value c)) = Some (48 + d)"
    using decimal_facts(2,3) [OF d] by (simp add: d)
  have "is_ascii_digit (48 + d)"
    using decimal_facts(1) [OF d] by (simp add: is_ascii_digit_def)
  with a c show ?case
    by (simp add: to_ascii_def)
qed

lemma try_float_str_decimal:
  assumes "list_all is_decimal s" "s \<noteq> []"
  shows "try_float_str s \<noteq> None"
proof -
  have f: "\<not> is_space c \<and> c \<noteq> ch CHR ''.'' \<and> c \<noteq> ch CHR '','' \<and> c \<noteq> ch CHR '' ''"
    if "c \<in> set s" for c
  proof -
    from that assms(1) obtain d where "decimal_value c = Some d"
      by (auto simp: list_all_iff is_decimal_def)
    from decimal_facts [OF this] show ?thesis by simp
  qed
  have "hd s \<in> set s" "last s \<in> set s"
    using assms(2) by simp_all
  then have st: "py_strip s = s"
    unfolding py_strip_def using assms(2) f by (intro strip_id) auto
  have rm: "remove_char (ch CHR '' '') s = s"
    using f by (simp add: remove_char_def filter_id_conv)
  have nd: "ch CHR ''.'' \<notin> set s" "ch CHR '','' \<notin> set s"
    using f by auto
  have fx: "fix_separators s = s"
    using nd f by (simp add: fix_separators_def remove_char_def replace_char_def filter_id_conv
        map_idI)
  from to_ascii_decimal [OF assms(1)] obtain a where a: "to_ascii s = Some a"
    "list_all is_ascii_digit a" "length a = length s"
    by blast
  from a(3) assms(2) have ne: "a \<noteq> []"
    by auto
  have "to_ascii a = Some a"
    using a(2) by (intro to_ascii_id) (auto simp: list_all_iff ascii_digit_facts)
  with py_float_digits [OF a(2) ne] have "ascii_float a = Some (mk_float (of_nat (digits_val a)))"
    by (simp add: py_float_def)
  then show ?thesis
    by (simp add: try_float_str_def st rm fx py_float_def a(1))
qed

lemma int_of_digits_decimal:
  assumes "int_of_digits s = Inr n"
  shows "list_all is_decimal s"
proof -
  from assms obtain ds where "those (map decimal_value s) = Some ds"
    by (auto simp: int_of_digits_def split: option.splits)
  then show ?thesis
  proof (induction s arbitrary: ds)
    case Nil
    then show ?case by simp
  next
    case (Cons c cs)
    then show ?case
      by (auto simp: is_decimal_def split: option.splits)
  qed
qed

section \<open>The cents heuristic\<close>

lemma digit_char_code:
  assumes "d < 10"
  shows "ch (digit_char d) = 48 + d"
proof -
  from assms have "d = 0 \<or> d = 1 \<or> d = 2 \<or> d = 3 \<or> d = 4 \<or> d = 5 \<or> d = 6 \<or> d = 7
      \<or> d = 8 \<or> d = 9"
    by arith
  then show ?thesis
    by (elim disjE) (simp_all add: digit_char_def ch_def)
qed

lemma nat_str_digits:
  "list_all is_ascii_digit (lit (nat_str n)) \<and> lit (nat_str n) \<noteq> []
     \<and> digits_val (lit (nat_str n)) = n"
proof (induction n rule: nat_str.induct)
  case (1 n)
  show ?case
  proof (cases "n < 10")
    case True
    then show ?thesis
      by (subst (1 2 3) nat_str.simps)
        (simp add: lit_def digit_char_code digits_val_def digit_val_def is_ascii_digit_def)
  next
    case False
    from 1 [OF False] have ih: "list_all is_ascii_digit (lit (nat_str (n div 10)))"
      "digits_val (lit (nat_str (n div 10))) = n div 10"
      by simp_all
    have m: "n mod 10 < 10" by simp
    from ih(1) have f: "filter is_ascii_digit (lit (nat_str (n div 10))) = lit (nat_str (n div 10))"
      by (simp add: list_all_iff)
    from ih(2) have v: "foldl (\<lambda>a c. 10 * a + digit_val c) 0 (lit (nat_str (n div 10))) = n div 10"
      by (simp add: digits_val_def f)
    have l: "lit (nat_str n) = lit (nat_str (n div 10)) @ [48 + n mod 10]"
      using False by (subst nat_str.simps) (simp add: lit_def digit_char_code [OF m])
    have dc: "is_ascii_digit (48 + n mod 10)"
      using m by (simp add: is_ascii_digit_def)
    have dv: "digit_val (48 + n mod 10) = n mod 10"
      by (simp add: digit_val_def)
    have "digits_val (lit (nat_str n)) = n"
      by (simp add: l digits_val_def f dc v dv)
    with ih(1) dc show ?thesis
      by (simp add: l)
  qed
qed

lemma lit_simps: "lit [] = []" "lit (c # cs) = ch c # lit cs"
  by (simp_all add: lit_def)

lemma try_float_int: "try_float (JInt i) = Some (mk_float (of_int i))"
proof (cases "0 \<le> i")
  case True
  let ?s = "lit (nat_str (nat i))"
  note n = nat_str_digits [of "nat i"]
  have h: "is_ascii_digit (hd ?s)" "is_ascii_digit (last ?s)"
    using n by (auto simp: list_all_iff)
  have c: "remove_char (ch CHR '' '') (py_strip ?s) = ?s"
    using n h by (intro candidate_digits) (auto simp: list_all_iff)
  have f: "fix_separators ?s = ?s"
    using digits_plain [of ?s] n
    by (simp add: fix_separators_def remove_char_def replace_char_def)
  show ?thesis
    using True n by (simp add: try_float_def int_str_def try_float_str_def c f py_float_digits)
next
  case False
  let ?d = "lit (nat_str (nat (- i)))"
  let ?s = "ch CHR ''-'' # ?d"
  note n = nat_str_digits [of "nat (- i)"]
  have dd: "\<forall>c \<in> set ?d. is_ascii_digit c"
    using n by (simp add: list_all_iff)
  have h: "is_ascii_digit (hd ?d)" "is_ascii_digit (last ?d)"
    using n by (auto simp: list_all_iff)
  have m: "\<not> is_space (ch CHR ''-'')" "\<not> is_c_space (ch CHR ''-'')" "ch CHR ''-'' < 128"
    "ch CHR ''-'' \<noteq> ch CHR '' ''" "ch CHR ''-'' \<noteq> ch CHR ''.''" "ch CHR ''-'' \<noteq> ch CHR '',''"
    "ch CHR ''-'' \<noteq> ch CHR ''+''"
    by (simp_all add: ch_def is_space_def is_c_space_def)
  have st: "py_strip ?s = ?s"
    unfolding py_strip_def using n h m by (intro strip_id) (auto simp: ascii_digit_facts)
  have rm: "remove_char (ch CHR '' '') ?s = ?s"
    using dd m by (auto simp: remove_char_def filter_id_conv ascii_digit_facts)
  have fx: "fix_separators ?s = ?s"
    using digits_plain [of ?d] n m
    by (simp add: fix_separators_def remove_char_def replace_char_def)
  have ta: "to_ascii ?s = Some ?s"
    using dd m by (intro to_ascii_id) (auto simp: ascii_digit_facts)
  have cs: "c_strip ?s = ?s"
    unfolding c_strip_def using n h m by (intro strip_id) (auto simp: ascii_digit_facts)
  have ne: "\<forall>c \<in> set ?d. c \<noteq> ch CHR ''e'' \<and> c \<noteq> ch CHR ''E''"
    using dd by (auto simp: ascii_digit_facts)
  have pn: "parse_number ?d = Some (of_nat (nat (- i)))"
    using n by (simp add: parse_number_no_exp [OF ne] parse_mantissa_digits)
  have af: "ascii_float ?s = Some (mk_float (- of_nat (nat (- i))))"
    using not_word_digits [OF h(1)] n
    by (simp add: ascii_float_def cs split_sign_def pn)
  have "(of_nat (nat (- i)) :: rat) = - of_int i"
    using False by simp
  with af have "ascii_float ?s = Some (mk_float (of_int i))"
    by simp
  then show ?thesis
    using False
    by (simp add: try_float_def int_str_def try_float_str_def lit_simps st rm fx py_float_def ta
        del: of_nat_nat)
qed

lemmas extract_eval = extract_price_def structured_data_def scan_script_def scan_object_def
  scan_offers_def scan_root_def jsonld_page_def dict_get_def py_or_def json_truthy_def
  as_eur_def isinstance_int_def str_isdigit_def int_of_digits_def int_to_float_def is_digit_def
  in_ranges_def digit_ranges_def

text \<open>
  Claim C2, as the code has it. An integer value is divided by 100 when it parses to at least
  10000, and an integer parses to the double nearest to it. No string and no decimal number
  is ever divided: whenever \<^verbatim>\<open>_as_eur\<close> returns a number for one, it is the number
  \<^verbatim>\<open>try_float\<close> read. The branch for all-digit strings is reached only by a text with a
  digit character that is not decimal, where \<^verbatim>\<open>int()\<close> raises \<^verbatim>\<open>ValueError\<close>. So the
  integer 12999 yields 129.99, the string \<^verbatim>\<open>"12999"\<close> yields 12999, and the number and the
  string 129.99 yield 12999 as well, \<^verbatim>\<open>try_float\<close> having dropped the point; the method
  tag is \<^verbatim>\<open>jsonld\<close> with or without the division.
\<close>

theorem cents_heuristic:
  "try_float (JInt i) = Some (mk_float (of_int i)) \<and>
   (fle (Fin 10000) (mk_float (of_int i)) \<longrightarrow>
      as_eur (JInt i) = Inr (Some (fdiv (mk_float (of_int i)) (Fin 100)))) \<and>
   (\<not> fle (Fin 10000) (mk_float (of_int i)) \<longrightarrow>
      as_eur (JInt i) = Inr (Some (mk_float (of_int i)))) \<and>
   (as_eur (JStr s) = Inr (Some v) \<longrightarrow> try_float (JStr s) = Some v) \<and>
   (as_eur (JFloat t) = Inr (Some v) \<longrightarrow> try_float (JFloat t) = Some v) \<and>
   (as_eur (JStr s) = Inl e \<longrightarrow> e = ValueError \<and> str_isdigit s \<and> try_float (JStr s) = None) \<and>
   as_eur (JInt 12999) = Inr (Some (mk_float (12999 / 100))) \<and>
   as_eur (JStr (lit ''12999'')) = Inr (Some (Fin 12999)) \<and>
   as_eur (JFloat (lit ''129.99'')) = Inr (Some (Fin 12999)) \<and>
   as_eur (JStr (lit ''129.99'')) = Inr (Some (Fin 12999)) \<and>
   as_eur (JStr [178]) = Inl ValueError \<and>
   extract_price (jsonld_page (JInt 12999))
     = Inr (Some (mk_float (12999 / 100)), JStr (lit ''EUR''), ''jsonld'') \<and>
   extract_price (jsonld_page (JStr (lit ''12999'')))
     = Inr (Some (Fin 12999), JStr (lit ''EUR''), ''jsonld'')"
proof -
  have i1: "fle (Fin 10000) (mk_float (of_int i)) \<longrightarrow>
      as_eur (JInt i) = Inr (Some (fdiv (mk_float (of_int i)) (Fin 100)))"
    and i2: "\<not> fle (Fin 10000) (mk_float (of_int i)) \<longrightarrow>
      as_eur (JInt i) = Inr (Some (mk_float (of_int i)))"
    by (simp_all add: as_eur_def try_float_int isinstance_int_def)
  have s1: "as_eur (JStr s) = Inr (Some v) \<longrightarrow> try_float (JStr s) = Some v"
  proof
    assume a: "as_eur (JStr s) = Inr (Some v)"
    show "try_float (JStr s) = Some v"
    proof (cases "try_float (JStr s)")
      case None
      with a obtain n where "str_isdigit s" "int_of_digits s = Inr n"
        by (auto simp: as_eur_def split: if_splits sum.splits)
      then have "list_all is_decimal s" "s \<noteq> []"
        by (auto dest: int_of_digits_decimal simp: str_isdigit_def)
      from try_float_str_decimal [OF this] None show ?thesis
        by (simp add: try_float_def)
    next
      case (Some w)
      with a show ?thesis
        by (simp add: as_eur_def isinstance_int_def)
    qed
  qed
  have s2: "as_eur (JFloat t) = Inr (Some v) \<longrightarrow> try_float (JFloat t) = Some v"
    by (auto simp: as_eur_def isinstance_int_def split: option.splits)
  have s3: "as_eur (JStr s) = Inl e \<longrightarrow> e = ValueError \<and> str_isdigit s \<and> try_float (JStr s) = None"
  proof
    assume a: "as_eur (JStr s) = Inl e"
    then have n: "try_float (JStr s) = None"
      by (auto simp: as_eur_def isinstance_int_def split: option.splits)
    with a have d: "str_isdigit s"
      by (auto simp: as_eur_def split: if_splits)
    have "e = ValueError"
    proof (cases "int_of_digits s")
      case (Inl x)
      then have "x = ValueError"
        by (auto simp: int_of_digits_def split: option.splits)
      with a n d Inl show ?thesis
        by (simp add: as_eur_def)
    next
      case (Inr k)
      then have "list_all is_decimal s" "s \<noteq> []"
        using d by (auto dest: int_of_digits_decimal simp: str_isdigit_def)
      from try_float_str_decimal [OF this] n show ?thesis
        by (simp add: try_float_def)
    qed
    with n d show "e = ValueError \<and> str_isdigit s \<and> try_float (JStr s) = None"
      by simp
  qed
  have e1: "as_eur (JInt 12999) = Inr (Some (mk_float (12999 / 100)))"
    by (simp add: extract_eval option_eval)
  have e2: "as_eur (JStr (lit ''12999'')) = Inr (Some (Fin 12999))"
    "as_eur (JFloat (lit ''129.99'')) = Inr (Some (Fin 12999))"
    "as_eur (JStr (lit ''129.99'')) = Inr (Some (Fin 12999))"
    "as_eur (JStr [178]) = Inl ValueError"
    by (simp_all add: extract_eval option_eval)
  have p1: "extract_price (jsonld_page (JInt 12999))
      = Inr (Some (mk_float (12999 / 100)), JStr (lit ''EUR''), ''jsonld'')"
    by (simp add: extract_eval option_eval)
  have p2: "extract_price (jsonld_page (JStr (lit ''12999'')))
      = Inr (Some (Fin 12999), JStr (lit ''EUR''), ''jsonld'')"
    by (simp add: extract_eval option_eval)
  from try_float_int [of i] i1 i2 s1 s2 s3 e1 e2 p1 p2 show ?thesis
    by (intro conjI)
qed

theorem cents_heuristic_witness:
  "fle (Fin 10000) (mk_float (of_int 12999)) \<and>
   as_eur (JInt 12999) = Inr (Some (fdiv (mk_float (of_int 12999)) (Fin 100))) \<and>
   \<not> fle (Fin 10000) (mk_float (of_int 129)) \<and>
   as_eur (JInt 129) = Inr (Some (mk_float (of_int 129))) \<and>
   as_eur (JStr (lit ''12999'')) = Inr (Some (Fin 12999)) \<and>
   try_float (JStr (lit ''12999'')) = Some (Fin 12999) \<and>
   as_eur (JFloat (lit ''129.99'')) = Inr (Some (Fin 12999)) \<and>
   try_float (JFloat (lit ''129.99'')) = Some (Fin 12999) \<and>
   as_eur (JStr [178]) = Inl ValueError \<and> str_isdigit [178] \<and> try_float (JStr [178]) = None"
proof -
  have f: "fle (Fin 10000) (mk_float (of_int 12999))" "\<not> fle (Fin 10000) (mk_float (of_int 129))"
    by (simp_all add: float_round)
  have a: "as_eur (JInt 12999) = Inr (Some (fdiv (mk_float (of_int 12999)) (Fin 100)))"
    using cents_heuristic [where i = 12999] f by blast
  have b: "as_eur (JInt 129) = Inr (Some (mk_float (of_int 129)))"
    using cents_heuristic [where i = 129] f by blast
  have e: "as_eur (JStr (lit ''12999'')) = Inr (Some (Fin 12999))"
    "as_eur (JFloat (lit ''129.99'')) = Inr (Some (Fin 12999))"
    "as_eur (JStr [178]) = Inl ValueError"
    by (simp_all add: extract_eval option_eval)
  have c: "try_float (JStr (lit ''12999'')) = Some (Fin 12999)"
    "try_float (JFloat (lit ''129.99'')) = Some (Fin 12999)"
    using cents_heuristic [where s = "lit ''12999''" and t = "lit ''129.99''" and v = "Fin 12999"] e
    by blast+
  have d: "str_isdigit [178]" "try_float (JStr [178]) = None"
    using cents_heuristic [where s = "[178]" and e = ValueError] e by blast+
  show ?thesis
    by (intro conjI; (rule f a b c d e))
qed

section \<open>The order of the strategies\<close>

lemma first_result_Some:
  "first_result f xs = Inr (Some y) \<Longrightarrow> \<exists>x \<in> set xs. f x = Inr (Some y)"
  by (induction xs) (auto split: sum.splits option.splits)

lemma scan_offers_tag:
  "scan_offers d = Inr (Some (p, c, m)) \<Longrightarrow> p \<noteq> None \<and> m = ''jsonld''"
  by (auto simp: scan_offers_def Let_def split: json.splits sum.splits option.splits)

lemma scan_root_tag:
  "scan_root d = Inr (Some (p, c, m)) \<Longrightarrow> p \<noteq> None \<and> m = ''jsonld-root''"
  by (auto simp: scan_root_def split: sum.splits option.splits)

lemma scan_object_tag:
  "scan_object obj = Inr (Some (p, c, m)) \<Longrightarrow> p \<noteq> None \<and> (m = ''jsonld'' \<or> m = ''jsonld-root'')"
  by (auto simp: scan_object_def split: json.splits sum.splits option.splits
      dest: scan_offers_tag scan_root_tag)

lemma structured_data_tag:
  assumes "structured_data sp = Inr (Some (p, c, m))"
  shows "p \<noteq> None \<and> (m = ''jsonld'' \<or> m = ''jsonld-root'')"
proof -
  from first_result_Some [OF assms [unfolded structured_data_def]]
  obtain l where "scan_script l = Inr (Some (p, c, m))"
    by blast
  then obtain data where "first_result scan_object (case data of JArr items \<Rightarrow> items | _ \<Rightarrow> [data])
      = Inr (Some (p, c, m))"
    by (auto simp: scan_script_def split: option.splits)
  from first_result_Some [OF this] obtain obj where "scan_object obj = Inr (Some (p, c, m))"
    by blast
  then show ?thesis
    by (rule scan_object_tag)
qed

lemma scan_hints_tag:
  assumes "scan_hints sp = Inr (Some (p, c, m))"
  shows "(\<exists>sel \<in> fst ` set META_HINTS. m = ''selector:'' @ sel) \<and> c = JStr (lit ''EUR'')"
proof -
  from first_result_Some [OF assms [unfolded scan_hints_def]]
  obtain h where h: "h \<in> set META_HINTS" "scan_hint sp h = Inr (Some (p, c, m))"
    by blast
  obtain sel attr where "h = (sel, attr)"
    by (cases h)
  with h show ?thesis
    by (force simp: scan_hint_def split: option.splits prod.splits)
qed

lemma text_fallback_tag:
  "text_fallback sp = (p, c, m) \<Longrightarrow>
     (p \<noteq> None \<and> m = ''text-fallback'') \<or> (p = None \<and> m = ''none'')"
  by (auto simp: text_fallback_def Let_def split: if_splits)

lemma finditer_None: "price_re_search prev s = None \<Longrightarrow> price_re_finditer prev s = []"
  by (subst price_re_finditer.simps) simp

lemma finditer_Some:
  "price_re_search prev s = Some (g, rest) \<Longrightarrow>
     price_re_finditer prev s = g # price_re_finditer (Some (last g)) rest"
  by (subst price_re_finditer.simps) simp

lemmas regex_eval = text_eval euro_def is_sep_def is_word_def price_prefix_def price_number_def
  price_re_at_def finditer_None finditer_Some

lemmas page_eval = extract_price_def structured_data_def scan_hints_def scan_hint_def
  META_HINTS_def text_fallback_def text_candidates_def List.map_filter_simps
  text_page_def span_page_def bare_meta_page_def both_page_def

text \<open>
  Claim C1, as the code has it. The strategies run in the order structured data, selector
  list, text fallback, and a result of structured data is returned whatever the selectors
  hold; it has a price and the tag \<^verbatim>\<open>jsonld\<close> or \<^verbatim>\<open>jsonld-root\<close>. The selector strategy
  returns at the first selector whose text has a match, with the tag \<^verbatim>\<open>selector:\<close> and
  the selector, also when the match does not normalise and the price is null; only when no
  selector has a match does the text fallback run, with the tag \<^verbatim>\<open>text-fallback\<close> for a
  price and \<^verbatim>\<open>none\<close> for null. An exception of a strategy leaves \<^verbatim>\<open>extract_price\<close>;
  a selected element without the attribute raises \<^verbatim>\<open>AttributeError\<close>.
\<close>

theorem extract_order:
  "(structured_data sp = Inr (Some r) \<longrightarrow> extract_price sp = Inr r) \<and>
   (structured_data sp = Inr None \<and> scan_hints sp = Inr (Some r) \<longrightarrow> extract_price sp = Inr r) \<and>
   (structured_data sp = Inr None \<and> scan_hints sp = Inr None \<longrightarrow>
      extract_price sp = Inr (text_fallback sp)) \<and>
   (structured_data sp = Inl e \<longrightarrow> extract_price sp = Inl e) \<and>
   (structured_data sp = Inr None \<and> scan_hints sp = Inl e \<longrightarrow> extract_price sp = Inl e) \<and>
   (structured_data sp = Inr (Some (p, c, m)) \<longrightarrow>
      p \<noteq> None \<and> (m = ''jsonld'' \<or> m = ''jsonld-root'')) \<and>
   (scan_hints sp = Inr (Some (p, c, m)) \<longrightarrow>
      (\<exists>sel \<in> fst ` set META_HINTS. m = ''selector:'' @ sel) \<and> c = JStr (lit ''EUR'')) \<and>
   (text_fallback sp = (p, c, m) \<longrightarrow>
      (p \<noteq> None \<and> m = ''text-fallback'') \<or> (p = None \<and> m = ''none'')) \<and>
   extract_price (both_page (JInt 129) (euro # lit '' 5''))
     = Inr (Some (Fin 129), JStr (lit ''EUR''), ''jsonld'') \<and>
   extract_price (span_page (euro # lit '' 19,99'') [])
     = Inr (Some (mk_float (1999 / 100)), JStr (lit ''EUR''), ''selector:span[data-price]'') \<and>
   extract_price (span_page (euro # lit '' 1,234,567'') (euro # lit '' 99''))
     = Inr (None, JStr (lit ''EUR''), ''selector:span[data-price]'') \<and>
   text_fallback (span_page (euro # lit '' 1,234,567'') (euro # lit '' 99''))
     = (Some (Fin 99), JStr (lit ''EUR''), ''text-fallback'') \<and>
   extract_price bare_meta_page = Inl AttributeError"
proof -
  have order: "(structured_data sp = Inr (Some r) \<longrightarrow> extract_price sp = Inr r) \<and>
   (structured_data sp = Inr None \<and> scan_hints sp = Inr (Some r) \<longrightarrow> extract_price sp = Inr r) \<and>
   (structured_data sp = Inr None \<and> scan_hints sp = Inr None \<longrightarrow>
      extract_price sp = Inr (text_fallback sp)) \<and>
   (structured_data sp = Inl e \<longrightarrow> extract_price sp = Inl e) \<and>
   (structured_data sp = Inr None \<and> scan_hints sp = Inl e \<longrightarrow> extract_price sp = Inl e)"
    by (simp add: extract_price_def)
  have tags: "(structured_data sp = Inr (Some (p, c, m)) \<longrightarrow>
      p \<noteq> None \<and> (m = ''jsonld'' \<or> m = ''jsonld-root'')) \<and>
   (scan_hints sp = Inr (Some (p, c, m)) \<longrightarrow>
      (\<exists>sel \<in> fst ` set META_HINTS. m = ''selector:'' @ sel) \<and> c = JStr (lit ''EUR'')) \<and>
   (text_fallback sp = (p, c, m) \<longrightarrow>
      (p \<noteq> None \<and> m = ''text-fallback'') \<or> (p = None \<and> m = ''none''))"
    using structured_data_tag [of sp p c m] scan_hints_tag [of sp p c m]
      text_fallback_tag [of sp p c m]
    by blast
  have ex: "extract_price (both_page (JInt 129) (euro # lit '' 5''))
     = Inr (Some (Fin 129), JStr (lit ''EUR''), ''jsonld'')"
    "extract_price (span_page (euro # lit '' 19,99'') [])
     = Inr (Some (mk_float (1999 / 100)), JStr (lit ''EUR''), ''selector:span[data-price]'')"
    "extract_price (span_page (euro # lit '' 1,234,567'') (euro # lit '' 99''))
     = Inr (None, JStr (lit ''EUR''), ''selector:span[data-price]'')"
    "text_fallback (span_page (euro # lit '' 1,234,567'') (euro # lit '' 99''))
     = (Some (Fin 99), JStr (lit ''EUR''), ''text-fallback'')"
    "extract_price bare_meta_page = Inl AttributeError"
    by (simp_all add: page_eval regex_eval extract_eval option_eval)
  from order tags ex show ?thesis
    by simp
qed

theorem extract_order_witness:
  "structured_data (both_page (JInt 129) (euro # lit '' 5''))
     = Inr (Some (Some (Fin 129), JStr (lit ''EUR''), ''jsonld'')) \<and>
   extract_price (both_page (JInt 129) (euro # lit '' 5''))
     = Inr (Some (Fin 129), JStr (lit ''EUR''), ''jsonld'') \<and>
   Some (Fin 129) \<noteq> None \<and>
   structured_data (span_page (euro # lit '' 1,234,567'') (euro # lit '' 99'')) = Inr None \<and>
   scan_hints (span_page (euro # lit '' 1,234,567'') (euro # lit '' 99''))
     = Inr (Some (None, JStr (lit ''EUR''), ''selector:span[data-price]'')) \<and>
   extract_price (span_page (euro # lit '' 1,234,567'') (euro # lit '' 99''))
     = Inr (None, JStr (lit ''EUR''), ''selector:span[data-price]'') \<and>
   (\<exists>sel \<in> fst ` set META_HINTS. ''selector:span[data-price]'' = ''selector:'' @ sel) \<and>
   structured_data (text_page (euro # lit '' 99'')) = Inr None \<and>
   scan_hints (text_page (euro # lit '' 99'')) = Inr None \<and>
   extract_price (text_page (euro # lit '' 99'')) = Inr (text_fallback (text_page (euro # lit '' 99''))) \<and>
   text_fallback (text_page (euro # lit '' 99'')) = (Some (Fin 99), JStr (lit ''EUR''), ''text-fallback'') \<and>
   structured_data bare_meta_page = Inr None \<and>
   scan_hints bare_meta_page = Inl AttributeError \<and>
   extract_price bare_meta_page = Inl AttributeError"
proof -
  let ?b = "both_page (JInt 129) (euro # lit '' 5'')"
  let ?s = "span_page (euro # lit '' 1,234,567'') (euro # lit '' 99'')"
  let ?t = "text_page (euro # lit '' 99'')"
  have h: "structured_data ?b = Inr (Some (Some (Fin 129), JStr (lit ''EUR''), ''jsonld''))"
    "structured_data ?s = Inr None"
    "scan_hints ?s = Inr (Some (None, JStr (lit ''EUR''), ''selector:span[data-price]''))"
    "structured_data ?t = Inr None" "scan_hints ?t = Inr None"
    "text_fallback ?t = (Some (Fin 99), JStr (lit ''EUR''), ''text-fallback'')"
    "structured_data bare_meta_page = Inr None"
    "scan_hints bare_meta_page = Inl AttributeError"
    by (simp_all add: page_eval regex_eval extract_eval option_eval)
  have r1: "extract_price ?b = Inr (Some (Fin 129), JStr (lit ''EUR''), ''jsonld'')"
    using extract_order [where sp = ?b and r = "(Some (Fin 129), JStr (lit ''EUR''), ''jsonld'')"]
      h(1) by blast
  have r2: "extract_price ?s = Inr (None, JStr (lit ''EUR''), ''selector:span[data-price]'')"
    using extract_order [where sp = ?s
        and r = "(None, JStr (lit ''EUR''), ''selector:span[data-price]'')"] h(2,3) by blast
  have r3: "\<exists>sel \<in> fst ` set META_HINTS. ''selector:span[data-price]'' = ''selector:'' @ sel"
    using extract_order [where sp = ?s and p = None and c = "JStr (lit ''EUR'')"
        and m = "''selector:span[data-price]''"] h(3) by blast
  have r4: "extract_price ?t = Inr (text_fallback ?t)"
    using extract_order [where sp = ?t] h(4,5) by blast
  have r5: "extract_price bare_meta_page = Inl AttributeError"
    using extract_order [where sp = bare_meta_page and e = AttributeError] h(7,8) by blast
  show ?thesis
    by (intro conjI; (rule h r1 r2 r3 r4 r5 | simp))
qed

section \<open>The text fallback\<close>

lemma mset_sort_insert: "mset (sort_insert x ys) = add_mset x (mset ys)"
  by (induction ys) auto

lemma mset_py_sort: "mset (py_sort xs) = mset xs"
  by (induction xs) (auto simp: mset_sort_insert)

lemma fle_facts:
  "flt a b \<Longrightarrow> fle a b"
  "\<not> flt b a \<Longrightarrow> a \<noteq> NaN \<Longrightarrow> b \<noteq> NaN \<Longrightarrow> fle a b"
  "fle a b \<Longrightarrow> fle b c \<Longrightarrow> fle a c"
  by (cases a; cases b; cases c; simp)+

lemma sorted_sort_insert:
  assumes "sorted_wrt fle ys" "x \<noteq> NaN" "NaN \<notin> set ys"
  shows "sorted_wrt fle (sort_insert x ys)"
  using assms
proof (induction ys)
  case Nil
  then show ?case by simp
next
  case (Cons y ys)
  have s: "set (sort_insert x ys) = insert x (set ys)"
    using mset_sort_insert [of x ys] by (metis set_mset_mset set_mset_add_mset_insert)
  show ?case
  proof (cases "flt y x")
    case True
    then show ?thesis
      using Cons by (auto simp: s fle_facts(1))
  next
    case False
    then have xy: "fle x y"
      using Cons.prems by (intro fle_facts(2)) auto
    then show ?thesis
      using False Cons.prems by (auto intro: fle_facts(3))
  qed
qed

lemma sorted_py_sort: "NaN \<notin> set xs \<Longrightarrow> sorted_wrt fle (py_sort xs)"
proof (induction xs)
  case Nil
  then show ?case by simp
next
  case (Cons x xs)
  have "set (py_sort xs) = set xs"
    using mset_py_sort [of xs] by (metis set_mset_mset)
  with Cons show ?case
    by (auto intro: sorted_sort_insert)
qed

lemma thousands_chars: "thousands s = (g, r) \<Longrightarrow> \<forall>c \<in> set g. is_decimal c \<or> is_sep c"
proof (induction s arbitrary: g r rule: thousands.induct)
  case (1 c d1 d2 d3 rest)
  show ?case
  proof (cases "is_sep c \<and> is_decimal d1 \<and> is_decimal d2 \<and> is_decimal d3")
    case True
    obtain g' r' where t: "thousands rest = (g', r')"
      by (cases "thousands rest")
    from 1(1) [OF True t] have "\<forall>c \<in> set g'. is_decimal c \<or> is_sep c"
      by simp
    with 1(2) True t show ?thesis
      by auto
  next
    case False
    with 1(2) show ?thesis by auto
  qed
qed auto

lemma cents_chars: "cents s = (g, r) \<Longrightarrow> \<forall>c \<in> set g. is_decimal c \<or> is_sep c"
  by (induction s rule: cents.induct) (auto split: if_splits)

lemma price_number_text:
  assumes "price_number s = Some (g, rest)"
  shows "is_price_text g"
proof -
  define d where "d = takeWhile is_decimal (take 4 s)"
  obtain g1 r1 where t: "thousands (drop (length d) s) = (g1, r1)"
    by (cases "thousands (drop (length d) s)")
  obtain g2 r2 where c: "cents r1 = (g2, r2)"
    by (cases "cents r1")
  from assms have ne: "d \<noteq> []" and g: "g = d @ g1 @ g2"
    by (auto simp: price_number_def d_def [symmetric] t c Let_def split: if_splits)
  have dd: "\<forall>c \<in> set d. is_decimal c"
    unfolding d_def by (auto dest: set_takeWhileD)
  from ne dd have "is_decimal (hd d)"
    by (cases d) auto
  with ne dd thousands_chars [OF t] cents_chars [OF c] show ?thesis
    by (auto simp: is_price_text_def g)
qed

lemma price_re_search_text:
  "price_re_search prev s = Some (g, rest) \<Longrightarrow> is_price_text g"
proof (induction s arbitrary: prev)
  case Nil
  then show ?case by simp
next
  case (Cons c cs)
  show ?case
  proof (cases "price_re_at prev (c # cs)")
    case None
    with Cons.prems have "price_re_search (Some c) cs = Some (g, rest)" by simp
    from Cons.IH [OF this] show ?thesis .
  next
    case (Some m)
    with Cons.prems have "price_re_at prev (c # cs) = Some (g, rest)" by simp
    then obtain t where "price_number t = Some (g, rest)"
      by (auto simp: price_re_at_def split: if_splits option.splits)
    then show ?thesis by (rule price_number_text)
  qed
qed

lemma price_re_finditer_text:
  "\<forall>g \<in> set (price_re_finditer prev s). is_price_text g"
proof (induction prev s rule: price_re_finditer.induct)
  case (1 prev s)
  show ?case
  proof (cases "price_re_search prev s")
    case None
    then show ?thesis by (simp add: finditer_None)
  next
    case (Some m)
    obtain g rest where m: "m = (g, rest)" by (cases m)
    from 1 [OF Some [unfolded m] refl] price_re_search_text [OF Some [unfolded m]]
    show ?thesis
      by (simp add: finditer_Some [OF Some [unfolded m]])
  qed
qed

lemma round_half_even_nonneg: "0 \<le> x \<Longrightarrow> 0 \<le> round_half_even x"
  by (auto simp: round_half_even_def Let_def)

lemma pow2_pos: "0 < pow2 k"
  by (simp add: pow2_def)

lemma mk_float_nonneg: "0 \<le> r \<Longrightarrow> fle (Fin 0) (mk_float r)"
proof -
  assume r: "0 \<le> r"
  have "0 \<le> round_to_quantum k \<bar>r\<bar>" for k
    unfolding round_to_quantum_def
    by (intro mult_nonneg_nonneg) (simp_all add: round_half_even_nonneg pow2_pos less_imp_le)
  then have "0 \<le> round_double \<bar>r\<bar>"
    by (simp add: round_double_def)
  with r show ?thesis
    by (simp add: mk_float_def finite_or_inf_def)
qed

lemma sep_facts:
  assumes "is_sep c"
  shows "c < 128" "\<not> is_space c" "\<not> is_c_space c" "c \<noteq> ch CHR '' ''"
    "c \<noteq> ch CHR ''e''" "c \<noteq> ch CHR ''E''" "\<not> is_ascii_digit c"
  using assms
  by (auto simp: is_sep_def is_space_def is_c_space_def is_ascii_digit_def ch_def)

lemma to_ascii_Cons:
  "to_ascii (c # cs) =
     (case (if c < 128 then Some c else if is_space c then Some 32
            else map_option (\<lambda>d. 48 + d) (decimal_value c)) of
        None \<Rightarrow> None
      | Some x \<Rightarrow> map_option (Cons x) (to_ascii cs))"
  unfolding to_ascii_def by (simp split: option.splits)

lemma to_ascii_price:
  assumes "\<forall>c \<in> set t. is_decimal c \<or> is_sep c"
  shows "\<exists>a. to_ascii t = Some a \<and> (a = [] \<longleftrightarrow> t = [])
           \<and> (\<forall>x \<in> set a. is_ascii_digit x \<or> is_sep x)
           \<and> (t \<noteq> [] \<longrightarrow> is_decimal (hd t) \<longrightarrow> is_ascii_digit (hd a))"
  using assms
proof (induction t)
  case Nil
  then show ?case by (simp add: to_ascii_def)
next
  case (Cons c cs)
  from Cons obtain a where a: "to_ascii cs = Some a" "\<forall>x \<in> set a. is_ascii_digit x \<or> is_sep x"
    by auto
  have "\<exists>x. (if c < 128 then Some c else if is_space c then Some 32
            else map_option (\<lambda>d. 48 + d) (decimal_value c)) = Some x
          \<and> (is_ascii_digit x \<or> is_sep x) \<and> (is_decimal c \<longrightarrow> is_ascii_digit x)"
  proof (cases "is_decimal c")
    case True
    then obtain d where d: "decimal_value c = Some d"
      by (auto simp: is_decimal_def)
    from decimal_facts(1) [OF d] have "is_ascii_digit (48 + d)"
      by (simp add: is_ascii_digit_def)
    with decimal_facts(2,3) [OF d] show ?thesis
      by (auto simp: d)
  next
    case False
    with Cons.prems have "is_sep c" by simp
    with False show ?thesis
      by (simp add: sep_facts)
  qed
  then obtain x where x: "(if c < 128 then Some c else if is_space c then Some 32
            else map_option (\<lambda>d. 48 + d) (decimal_value c)) = Some x"
    "is_ascii_digit x \<or> is_sep x" "is_decimal c \<longrightarrow> is_ascii_digit x"
    by blast
  have "to_ascii (c # cs) = Some (x # a)"
    by (simp only: to_ascii_Cons x(1) a(1) option.case option.map)
  with a x show ?case
    by simp
qed

lemma parse_mantissa_nonneg: "parse_mantissa m = Some v \<Longrightarrow> 0 \<le> v"
  by (auto simp: parse_mantissa_def Let_def split: if_splits)

lemma ascii_float_price:
  assumes "a \<noteq> []" "is_ascii_digit (hd a)" "\<forall>x \<in> set a. is_ascii_digit x \<or> is_sep x"
    and "ascii_float a = Some v"
  shows "fle (Fin 0) v"
proof -
  have l: "is_ascii_digit (last a) \<or> is_sep (last a)"
    using assms(1,3) by simp
  have s: "c_strip a = a"
    unfolding c_strip_def
    using assms(1,2) l by (intro strip_id) (auto simp: ascii_digit_facts sep_facts)
  have sg: "split_sign a = (False, a)"
    using assms(1,2) by (cases a) (auto simp: split_sign_def ascii_digit_facts)
  have ne: "\<forall>c \<in> set a. c \<noteq> ch CHR ''e'' \<and> c \<noteq> ch CHR ''E''"
    using assms(3) ascii_digit_facts(10,11) sep_facts(5,6) by blast
  from assms(4) obtain r where "parse_mantissa a = Some r" "v = mk_float r"
    by (auto simp: ascii_float_def s sg not_word_digits [OF assms(2,1)]
        parse_number_no_exp [OF ne] split: option.splits)
  with parse_mantissa_nonneg [of a r] mk_float_nonneg [of r] show ?thesis
    by simp
qed

lemma fix_separators_price:
  assumes "is_price_text g"
  shows "is_price_text (fix_separators g)"
proof -
  from assms obtain c cs where g: "g = c # cs" and c: "is_decimal c"
    and cs: "\<forall>x \<in> set cs. is_decimal x \<or> is_sep x"
    by (cases g) (auto simp: is_price_text_def)
  from c obtain d where "decimal_value c = Some d"
    by (auto simp: is_decimal_def)
  from decimal_facts(4,5) [OF this] have n: "c \<noteq> ch CHR ''.''" "c \<noteq> ch CHR '',''" .
  have sd: "is_sep (ch CHR ''.'')"
    by (simp add: is_sep_def)
  from cs show ?thesis
    by (auto simp: is_price_text_def fix_separators_def g n c sd remove_char_def replace_char_def)
qed

lemma normalize_euro_price:
  assumes "is_price_text g" "normalize_euro g = Some v"
  shows "fle (Fin 0) v"
proof -
  from assms(1) have ne: "g \<noteq> []" and h: "is_decimal (hd g)"
    and a: "\<forall>c \<in> set g. is_decimal c \<or> is_sep c"
    by (auto simp: is_price_text_def)
  have ns: "\<not> is_space c \<and> c \<noteq> ch CHR '' ''" if "c \<in> set g" for c
  proof (cases "is_decimal c")
    case True
    then obtain d where "decimal_value c = Some d"
      by (auto simp: is_decimal_def)
    from decimal_facts(2,6) [OF this] show ?thesis by simp
  next
    case False
    with a that have "is_sep c" by blast
    then show ?thesis by (simp add: sep_facts)
  qed
  have s: "py_strip g = g"
    unfolding py_strip_def using ne ns by (intro strip_id) simp_all
  have r: "remove_char (ch CHR '' '') g = g"
    using ns by (simp add: remove_char_def filter_id_conv)
  from fix_separators_price [OF assms(1)] have t: "fix_separators g \<noteq> []"
    "is_decimal (hd (fix_separators g))"
    "\<forall>c \<in> set (fix_separators g). is_decimal c \<or> is_sep c"
    by (auto simp: is_price_text_def)
  from to_ascii_price [OF t(3)] t(1,2) obtain b where b: "to_ascii (fix_separators g) = Some b"
    "b \<noteq> []" "\<forall>x \<in> set b. is_ascii_digit x \<or> is_sep x" "is_ascii_digit (hd b)"
    by auto
  from assms(2) have "ascii_float b = Some v"
    by (simp add: normalize_euro_def s r py_float_def b(1))
  from ascii_float_price [OF b(2,4,3) this] show ?thesis .
qed

lemma text_candidates_nonneg: "\<forall>v \<in> set (text_candidates sp). fle (Fin 0) v"
proof
  fix v assume "v \<in> set (text_candidates sp)"
  then obtain g where "g \<in> set (price_re_finditer None (soup_text sp))" "normalize_euro g = Some v"
    by (auto simp: text_candidates_def List.map_filter_def)
  with price_re_finditer_text show "fle (Fin 0) v"
    by (blast intro: normalize_euro_price)
qed

end
